theory Spec2Isabelle
  imports Main "HOL-Library.Multiset" "HOL-Library.Char_ord" "HOL-Library.List_Lexorder" "HOL-Library.Sublist"
begin

section \<open>Values of the export\<close>

text \<open>
  The script works on what \<^verbatim>\<open>json.load\<close> returns: nested dictionaries, lists, strings,
  numbers, booleans and \<^verbatim>\<open>None\<close>. A dictionary is kept as an association list in
  insertion order (the order \<^verbatim>\<open>dict.values()\<close> iterates in), each key once; Python's
  \<^verbatim>\<open>None\<close> is \<open>JNull\<close>. Numbers are integers: the export carries no fractional number
  in any field the script reads. Strings are ASCII.

  Names follow the script. Where Isabelle reserves a name, the field \<^verbatim>\<open>id\<close> of a result is
  \<open>table_id\<close>, the local \<^verbatim>\<open>end\<close> of \<^verbatim>\<open>get_sessions\<close> is \<open>en\<close> and the parameter
  \<^verbatim>\<open>file_\<close> is \<open>file\<close>.
\<close>

datatype json =
    JNull
  | JBool bool
  | JNum int
  | JStr string
  | JArr "json list"
  | JObj "(string \<times> json) list"

text \<open>
  The exception classes the script raises, catches or lets through. \<open>IOError\<close> stands
  for \<^verbatim>\<open>OSError\<close> and its subclasses (Python 3 makes \<^verbatim>\<open>IOError\<close> an alias of it);
  \<^verbatim>\<open>zipfile.BadZipFile\<close> derives from \<^verbatim>\<open>Exception\<close> directly and is a class of its own.
\<close>

datatype exn =
    IOError
  | JSONDecodeError
  | UnicodeDecodeError
  | BadZipFile
  | InvalidFileError
  | AttributeError
  | KeyError
  | TypeError
  | ValueError

definition try_bind :: "exn + 'a \<Rightarrow> ('a \<Rightarrow> exn + 'b) \<Rightarrow> exn + 'b" where
  "try_bind m f = (case m of Inl e \<Rightarrow> Inl e | Inr x \<Rightarrow> f x)"

text \<open>
  A Python iterator (a list being walked, a generator, \<^verbatim>\<open>itertools.chain\<close>) is the list of
  what each \<^verbatim>\<open>next\<close> does: \<open>Inr x\<close> yields \<open>x\<close>, \<open>Inl e\<close> raises \<open>e\<close>. Nothing after
  the first \<open>Inl\<close> is ever reached.
\<close>

type_synonym 'a iterator = "(exn + 'a) list"

fun py_iter :: "json \<Rightarrow> json iterator" where
  "py_iter (JArr xs) = map Inr xs"
| "py_iter (JObj kvs) = map (\<lambda>kv. Inr (JStr (fst kv))) kvs"
| "py_iter (JStr s) = map (\<lambda>c. Inr (JStr [c])) s"
| "py_iter JNull = [Inl TypeError]"
| "py_iter (JBool b) = [Inl TypeError]"
| "py_iter (JNum n) = [Inl TypeError]"

text \<open>\<^verbatim>\<open>list(it)\<close>: everything the iterator yields, or the first exception it raises.\<close>

fun collect :: "'a iterator \<Rightarrow> exn + 'a list" where
  "collect [] = Inr []"
| "collect (Inl e # rest) = Inl e"
| "collect (Inr x # rest) = (case collect rest of Inl e \<Rightarrow> Inl e | Inr xs \<Rightarrow> Inr (x # xs))"

text \<open>A comprehension over a list: the elements in turn, up to the first exception.\<close>

fun try_map :: "('a \<Rightarrow> exn + 'b) \<Rightarrow> 'a list \<Rightarrow> exn + 'b list" where
  "try_map f [] = Inr []"
| "try_map f (x # xs) =
     (case f x of
        Inl e \<Rightarrow> Inl e
      | Inr y \<Rightarrow> (case try_map f xs of Inl e \<Rightarrow> Inl e | Inr ys \<Rightarrow> Inr (y # ys)))"

text \<open>\<^verbatim>\<open>d.get(k, None)\<close>: only a dictionary has the method.\<close>

fun dict_get :: "json \<Rightarrow> string \<Rightarrow> exn + json" where
  "dict_get (JObj kvs) k = Inr (case map_of kvs k of None \<Rightarrow> JNull | Some v \<Rightarrow> v)"
| "dict_get v k = Inl AttributeError"

text \<open>\<^verbatim>\<open>item[k]\<close> with a string key.\<close>

fun getitem :: "json \<Rightarrow> string \<Rightarrow> exn + json" where
  "getitem (JObj kvs) k = (case map_of kvs k of None \<Rightarrow> Inl KeyError | Some v \<Rightarrow> Inr v)"
| "getitem v k = Inl TypeError"

text \<open>Truth value of a Python object, as \<^verbatim>\<open>not x\<close> tests it.\<close>

fun truthy :: "json \<Rightarrow> bool" where
  "truthy JNull = False"
| "truthy (JBool b) = b"
| "truthy (JNum n) = (n \<noteq> 0)"
| "truthy (JStr s) = (s \<noteq> [])"
| "truthy (JArr xs) = (xs \<noteq> [])"
| "truthy (JObj kvs) = (kvs \<noteq> [])"

fun get_in :: "json \<Rightarrow> string list \<Rightarrow> exn + json" where
  "get_in data_dict [] = Inr data_dict"
| "get_in data_dict (k # key_path) =
     (case dict_get data_dict k of
        Inl e \<Rightarrow> Inl e
      | Inr v \<Rightarrow> if v = JNull then Inr JNull else get_in v key_path)"

definition get_list :: "json \<Rightarrow> string list \<Rightarrow> exn + json" where
  "get_list data_dict key_path =
     try_bind (get_in data_dict key_path) (\<lambda>result. if result = JNull then Inr (JArr []) else Inr result)"

definition get_dict :: "json \<Rightarrow> string list \<Rightarrow> exn + json" where
  "get_dict data_dict key_path =
     try_bind (get_in data_dict key_path) (\<lambda>result. if result = JNull then Inr (JObj []) else Inr result)"

definition get_string :: "json \<Rightarrow> string list \<Rightarrow> exn + json" where
  "get_string data_dict key_path =
     try_bind (get_in data_dict key_path) (\<lambda>result. if result = JNull then Inr (JStr []) else Inr result)"

definition cast_number :: "json \<Rightarrow> string list \<Rightarrow> exn + json" where
  "cast_number data_dict key_path =
     try_bind (get_in data_dict key_path)
       (\<lambda>v. if v = JNull \<or> v = JStr ''None'' then Inr (JNum 0) else Inr v)"

section \<open>Temporal utilities\<close>

text \<open>
  A naive \<^verbatim>\<open>datetime\<close> is its number of seconds since 1970-01-01 00:00:00 (the export's
  format has no fraction of a second), a \<^verbatim>\<open>timedelta\<close> a number of seconds.
\<close>

definition days_from_civil :: "int \<Rightarrow> int \<Rightarrow> int \<Rightarrow> int" where
  "days_from_civil y m d =
     (let y' = (if m \<le> 2 then y - 1 else y);
          era = y' div 400;
          yoe = y' - era * 400;
          doy = (153 * (if m > 2 then m - 3 else m + 9) + 2) div 5 + d - 1;
          doe = yoe * 365 + yoe div 4 - yoe div 100 + doy
      in era * 146097 + doe - 719468)"

definition datetime :: "int \<Rightarrow> int \<Rightarrow> int \<Rightarrow> int \<Rightarrow> int \<Rightarrow> int \<Rightarrow> int" where
  "datetime y m d hh mm ss = days_from_civil y m d * 86400 + hh * 3600 + mm * 60 + ss"

definition filter_start :: int where
  "filter_start = datetime 2021 1 1 0 0 0"

definition filter_end :: int where
  "filter_end = datetime 2025 1 1 0 0 0"

text \<open>
  \<^verbatim>\<open>datetime.strptime(value, "%Y-%m-%d %H:%M:%S")\<close> is the standard library's. The
  extraction is stated for any parser \<open>sp\<close> from strings to instants; \<open>strptime_iso\<close>
  below follows the library on ASCII strings and is used to run the definitions on
  concrete documents. The library matches the string against the pattern of the format:
  four digits for the year; for the month, the day, the hour, the minute and the second
  a run of one or two digits within the range of the field (the day may also be a space
  and one digit); the separators \<^verbatim>\<open>-\<close> and \<^verbatim>\<open>:\<close> as written; one or more blanks where
  the format has its space; nothing after the seconds. The date must then exist.
\<close>

type_synonym strptime = "string \<Rightarrow> exn + int"

definition parse_datetime :: "strptime \<Rightarrow> json \<Rightarrow> exn + int" where
  "parse_datetime sp v = (case v of JStr s \<Rightarrow> sp s | _ \<Rightarrow> Inl TypeError)"

definition digit :: "char \<Rightarrow> int option" where
  "digit c = (let n = (of_char c :: nat) in if 48 \<le> n \<and> n \<le> 57 then Some (int n - 48) else None)"

definition is_digit :: "char \<Rightarrow> bool" where
  "is_digit c = (digit c \<noteq> None)"

definition is_space :: "char \<Rightarrow> bool" where
  "is_space c = (let n = (of_char c :: nat) in n = 32 \<or> (9 \<le> n \<and> n \<le> 13) \<or> (28 \<le> n \<and> n \<le> 31))"

definition digits_value :: "string \<Rightarrow> int" where
  "digits_value s = fold (\<lambda>c acc. 10 * acc + (case digit c of None \<Rightarrow> 0 | Some d \<Rightarrow> d)) s 0"

text \<open>A field of one or two digits: its value and what follows it.\<close>

definition field :: "string \<Rightarrow> (int \<times> string) option" where
  "field s =
     (let run = takeWhile is_digit s in
      if length run = 1 \<or> length run = 2 then Some (digits_value run, dropWhile is_digit s) else None)"

definition day_field :: "string \<Rightarrow> (int \<times> string) option" where
  "day_field s =
     (case s of
        [] \<Rightarrow> None
      | c # rest \<Rightarrow>
          if c = CHR '' '' then
            (case rest of
               [] \<Rightarrow> None
             | x # rest' \<Rightarrow>
                 (case digit x of
                    None \<Rightarrow> None
                  | Some v \<Rightarrow> if 1 \<le> v then Some (v, rest') else None))
          else field s)"

definition expect :: "char \<Rightarrow> string \<Rightarrow> string option" where
  "expect c s = (case s of [] \<Rightarrow> None | x # rest \<Rightarrow> if x = c then Some rest else None)"

definition blanks :: "string \<Rightarrow> string option" where
  "blanks s = (case s of [] \<Rightarrow> None | x # rest \<Rightarrow> if is_space x then Some (dropWhile is_space rest) else None)"

definition strptime_fields :: "string \<Rightarrow> (int \<times> int \<times> int \<times> int \<times> int \<times> int) option" where
  "strptime_fields s =
     (if length (take 4 s) = 4 \<and> list_all is_digit (take 4 s) then
        Option.bind (expect CHR ''-'' (drop 4 s)) (\<lambda>s1.
        Option.bind (field s1) (\<lambda>(m, s2).
        Option.bind (expect CHR ''-'' s2) (\<lambda>s3.
        Option.bind (day_field s3) (\<lambda>(d, s4).
        Option.bind (blanks s4) (\<lambda>s5.
        Option.bind (field s5) (\<lambda>(hh, s6).
        Option.bind (expect CHR '':'' s6) (\<lambda>s7.
        Option.bind (field s7) (\<lambda>(mm, s8).
        Option.bind (expect CHR '':'' s8) (\<lambda>s9.
        Option.bind (field s9) (\<lambda>(ss, s10).
        if s10 = [] then Some (digits_value (take 4 s), m, d, hh, mm, ss) else None))))))))))
      else None)"

definition days_in_month :: "int \<Rightarrow> int \<Rightarrow> int" where
  "days_in_month y m =
     (if m = 2 then (if y mod 4 = 0 \<and> (y mod 100 \<noteq> 0 \<or> y mod 400 = 0) then 29 else 28)
      else if m = 4 \<or> m = 6 \<or> m = 9 \<or> m = 11 then 30 else 31)"

definition strptime_iso :: strptime where
  "strptime_iso s =
     (case strptime_fields s of
        None \<Rightarrow> Inl ValueError
      | Some (y, m, d, hh, mm, ss) \<Rightarrow>
          if 1 \<le> y \<and> 1 \<le> m \<and> m \<le> 12 \<and> 1 \<le> d \<and> d \<le> days_in_month y m
             \<and> hh < 24 \<and> mm < 60 \<and> ss < 60
          then Inr (datetime y m d hh mm ss) else Inl ValueError)"

definition item_date :: "strptime \<Rightarrow> json \<Rightarrow> exn + int" where
  "item_date sp item = try_bind (getitem item ''Date'') (parse_datetime sp)"

fun get_date_filtered_items :: "strptime \<Rightarrow> json iterator \<Rightarrow> (int \<times> json) iterator" where
  "get_date_filtered_items sp [] = []"
| "get_date_filtered_items sp (Inl e # items) = [Inl e]"
| "get_date_filtered_items sp (Inr item # items) =
     (case item_date sp item of
        Inl e \<Rightarrow> [Inl e]
      | Inr timestamp \<Rightarrow>
          if timestamp < filter_start \<or> timestamp > filter_end
          then get_date_filtered_items sp items
          else Inr (timestamp, item) # get_date_filtered_items sp items)"

definition get_all_first :: "('a \<times> 'b) iterator \<Rightarrow> 'a iterator" where
  "get_all_first items = map (map_sum id fst) items"

definition hourly_key :: "int \<Rightarrow> int" where
  "hourly_key date = date - date mod 3600"

definition daily_key :: "int \<Rightarrow> int" where
  "daily_key date = date div 86400"

definition hour_of :: "int \<Rightarrow> int" where
  "hour_of date = (date div 3600) mod 24"

type_synonym session = "int \<times> int \<times> int"

fun sessions_loop :: "(int \<times> int) list \<Rightarrow> session list \<Rightarrow> int \<Rightarrow> int \<Rightarrow> session list" where
  "sessions_loop [] sessions start en = sessions @ [(start, en, en - start)]"
| "sessions_loop ((prev, cur) # pairs) sessions start en =
     (if cur - prev > 300
      then sessions_loop pairs (sessions @ [(start, en, en - start)]) cur cur
      else sessions_loop pairs sessions start cur)"

definition get_sessions :: "int list \<Rightarrow> session list" where
  "get_sessions timestamps =
     (let ts = sort timestamps in
      if length ts = 0 then []
      else if length ts = 1 then [(ts ! 0, ts ! 0, 0)]
      else sessions_loop (zip ts (drop 1 ts)) [] (ts ! 0) (ts ! 0))"

subsection \<open>Sessions as groups of the sorted instants\<close>

text \<open>
  What a segmentation has to satisfy, in the words of the specification: the groups are
  contiguous pieces of the sorted input, no gap inside a group exceeds five minutes, and
  every gap between one group and the next does.
\<close>

fun within_gap :: "int list \<Rightarrow> bool" where
  "within_gap [] = True"
| "within_gap [x] = True"
| "within_gap (x # y # r) = (y - x \<le> 300 \<and> within_gap (y # r))"

fun separated :: "int list list \<Rightarrow> bool" where
  "separated [] = True"
| "separated [g] = True"
| "separated (g # h # r) = (hd h - last g > 300 \<and> separated (h # r))"

definition session_of :: "int list \<Rightarrow> session" where
  "session_of g = (hd g, last g, last g - hd g)"

fun groups :: "int list \<Rightarrow> int list list" where
  "groups [] = []"
| "groups [x] = [[x]]"
| "groups (x # y # r) =
     (if y - x > 300 then [x] # groups (y # r)
      else (case groups (y # r) of [] \<Rightarrow> [[x]] | g # gs \<Rightarrow> (x # g) # gs))"

section \<open>Python operations on values\<close>

text \<open>
  \<^verbatim>\<open>a == b\<close> on parsed values: \<^verbatim>\<open>True\<close> and \<^verbatim>\<open>False\<close> equal \<open>1\<close> and \<open>0\<close>, and two
  dictionaries are equal when they hold the same items in any order. Both sides are
  brought to one form (booleans as numbers, dictionaries sorted by key) and compared.
\<close>

fun canon :: "json \<Rightarrow> json" where
  "canon (JBool b) = JNum (if b then 1 else 0)"
| "canon (JArr xs) = JArr (map canon xs)"
| "canon (JObj kvs) = JObj (sort_key fst (map (\<lambda>kv. (fst kv, canon (snd kv))) kvs))"
| "canon JNull = JNull"
| "canon (JNum n) = JNum n"
| "canon (JStr s) = JStr s"

definition py_eq :: "json \<Rightarrow> json \<Rightarrow> bool" where
  "py_eq a b = (canon a = canon b)"

text \<open>
  A dictionary key: lists and dictionaries are unhashable; \<^verbatim>\<open>True\<close> and \<open>1\<close> are the
  same key.
\<close>

fun dict_key :: "json \<Rightarrow> exn + json" where
  "dict_key (JArr xs) = Inl TypeError"
| "dict_key (JObj kvs) = Inl TypeError"
| "dict_key (JBool b) = Inr (JNum (if b then 1 else 0))"
| "dict_key v = Inr v"

text \<open>
  \<^verbatim>\<open>int(x)\<close>: a number is itself, a string is read as optional sign and decimal
  digits (single underscores between digits allowed) between optional blanks.
\<close>

definition strip :: "string \<Rightarrow> string" where
  "strip s = rev (dropWhile is_space (rev (dropWhile is_space s)))"

fun digits :: "int \<Rightarrow> string \<Rightarrow> int option" where
  "digits acc [] = Some acc"
| "digits acc (c # cs) =
     (if c = CHR ''_''
      then (case cs of [] \<Rightarrow> None
            | d # ds \<Rightarrow> (case digit d of None \<Rightarrow> None | Some v \<Rightarrow> digits (10 * acc + v) ds))
      else (case digit c of None \<Rightarrow> None | Some v \<Rightarrow> digits (10 * acc + v) cs))"

definition unsigned :: "string \<Rightarrow> exn + int" where
  "unsigned s =
     (case s of [] \<Rightarrow> Inl ValueError
      | c # cs \<Rightarrow> (case digit c of None \<Rightarrow> Inl ValueError
                  | Some v \<Rightarrow> (case digits v cs of None \<Rightarrow> Inl ValueError | Some n \<Rightarrow> Inr n)))"

definition int_of_string :: "string \<Rightarrow> exn + int" where
  "int_of_string s =
     (case strip s of [] \<Rightarrow> Inl ValueError
      | c # cs \<Rightarrow> if c = CHR ''-'' then try_bind (unsigned cs) (\<lambda>n. Inr (- n))
                 else if c = CHR ''+'' then unsigned cs
                 else unsigned (c # cs))"

fun py_int :: "json \<Rightarrow> exn + int" where
  "py_int (JNum n) = Inr n"
| "py_int (JBool b) = Inr (if b then 1 else 0)"
| "py_int (JStr s) = int_of_string s"
| "py_int v = Inl TypeError"

section \<open>Table extractors\<close>

text \<open>
  A data frame is its list of rows. A cell is a literal text, a count, a value of the
  export as found (\<open>Missing\<close> where pandas fills \<^verbatim>\<open>NaN\<close>), an hour slot (\<open>Timeslot h\<close> is
  the label \<^verbatim>\<open>"h-h+1"\<close>), an instant written by \<^verbatim>\<open>strftime\<close> (the format, and the instant
  cut to what the format shows) or a duration in seconds (the frame shows it in minutes,
  rounded to two decimals). Descriptions and chart hints are constants of each
  extractor and are not carried.

  Of pandas, the model keeps what the script asks of it: building a frame from records
  or from columns, mapping a column, the outer join of two counted series on their key,
  the order of rows and columns, and the two ways a frame leaves the exact integers and
  the dates the script counts on. A column of instants with no row is an object column:
  its \<^verbatim>\<open>dt\<close> accessor, and \<^verbatim>\<open>strftime\<close> on the index of a frame built from no bucket, raise
  \<open>AttributeError\<close>. A column of integers is exact while every integer of the frame is
  within 64 bits signed (\<open>Number\<close>); beyond, pandas holds the column as unsigned, as
  floating point or as objects according to the other values, and the cell (\<open>Wide n\<close>)
  shows \<open>n\<close> or the double nearest to it. Instants are within the range pandas holds
  (the years 1678 to 2261).
\<close>

datatype cell =
    Text string
  | Number int
  | Wide int
  | Found json
  | Missing
  | Timeslot int
  | Formatted string int
  | Duration int

definition int64 :: "int \<Rightarrow> bool" where
  "int64 n = (- (2 ^ 63) \<le> n \<and> n < 2 ^ 63)"

definition count_cell :: "bool \<Rightarrow> int \<Rightarrow> cell" where
  "count_cell exact n = (if exact then Number n else Wide n)"

record extraction_result =
  table_id :: string
  title :: string
  data_frame :: "cell list list"

definition ExtractionResult :: "string \<Rightarrow> string \<Rightarrow> cell list list \<Rightarrow> extraction_result" where
  "ExtractionResult i t df = \<lparr>table_id = i, title = t, data_frame = df\<rparr>"

definition get_user_name :: "json \<Rightarrow> exn + json" where
  "get_user_name data = get_in data [''Profile'', ''Profile Information'', ''ProfileMap'', ''userName'']"

definition get_chat_history :: "json \<Rightarrow> exn + json" where
  "get_chat_history data = get_dict data [''Direct Messages'', ''Chat History'', ''ChatHistory'']"

text \<open>
  \<^verbatim>\<open>itertools.chain(*history.values())\<close>: calling \<^verbatim>\<open>values\<close> on anything but a dictionary
  raises at once; the threads are then walked one after the other.
\<close>

fun flatten_chat_history :: "json \<Rightarrow> exn + json iterator" where
  "flatten_chat_history (JObj kvs) = Inr (concat (map (\<lambda>kv. py_iter (snd kv)) kvs))"
| "flatten_chat_history v = Inl AttributeError"

definition filtered_count :: "strptime \<Rightarrow> json \<Rightarrow> string list \<Rightarrow> exn + int" where
  "filtered_count sp data key_path =
     try_bind (get_list data key_path) (\<lambda>items.
     try_bind (collect (get_date_filtered_items sp (py_iter items))) (\<lambda>filtered_items.
     Inr (int (length filtered_items))))"

text \<open>\<^verbatim>\<open>len(list(filter(lambda item: p(item[1]["From"]), items)))\<close>\<close>

fun count_from :: "(json \<Rightarrow> bool) \<Rightarrow> (int \<times> json) list \<Rightarrow> exn + int" where
  "count_from p [] = Inr 0"
| "count_from p (item # items) =
     (case getitem (snd item) ''From'' of
        Inl e \<Rightarrow> Inl e
      | Inr sender \<Rightarrow> try_bind (count_from p items) (\<lambda>n. Inr (if p sender then n + 1 else n)))"

text \<open>
  \<^verbatim>\<open>pd.DataFrame(summary_data)\<close>: the column \<^verbatim>\<open>Number\<close> holds the counts and the likes
  received as found. It is a column of integers when the likes received are a number,
  and of objects otherwise.
\<close>

definition summary_frame :: "(string \<times> json) list \<Rightarrow> cell list list" where
  "summary_frame numbers =
     (let integers = list_all (\<lambda>kv. case snd kv of JNum n \<Rightarrow> True | _ \<Rightarrow> False) numbers;
          exact = (\<not> integers \<or> list_all (\<lambda>kv. case snd kv of JNum n \<Rightarrow> int64 n | _ \<Rightarrow> True) numbers)
      in map (\<lambda>kv. [Text (fst kv), (case snd kv of JNum n \<Rightarrow> count_cell exact n | v \<Rightarrow> Found v)]) numbers)"

definition extract_summary_data :: "strptime \<Rightarrow> json \<Rightarrow> exn + extraction_result option" where
  "extract_summary_data sp data =
     try_bind (get_user_name data) (\<lambda>user_name.
     try_bind (get_chat_history data) (\<lambda>chat_history.
     try_bind (flatten_chat_history chat_history) (\<lambda>flattened.
     try_bind (collect (get_date_filtered_items sp flattened)) (\<lambda>direct_messages_in_period.
     try_bind (count_from (\<lambda>sender. py_eq sender user_name) direct_messages_in_period) (\<lambda>sent_count.
     try_bind (count_from (\<lambda>sender. \<not> py_eq sender user_name) direct_messages_in_period) (\<lambda>received_count.
     try_bind (filtered_count sp data [''Activity'', ''Follower List'', ''FansList'']) (\<lambda>followers.
     try_bind (filtered_count sp data [''Activity'', ''Following List'', ''Following'']) (\<lambda>following.
     try_bind (cast_number data [''Profile'', ''Profile Information'', ''ProfileMap'', ''likesReceived'']) (\<lambda>likes_received.
     try_bind (filtered_count sp data [''Video'', ''Videos'', ''VideoList'']) (\<lambda>videos_posted.
     try_bind (filtered_count sp data [''Activity'', ''Like List'', ''ItemFavoriteList'']) (\<lambda>likes_given.
     try_bind (filtered_count sp data [''Comment'', ''Comments'', ''CommentsList'']) (\<lambda>comments_posted.
     try_bind (filtered_count sp data [''Activity'', ''Video Browsing History'', ''VideoList'']) (\<lambda>videos_watched.
     Inr (Some (ExtractionResult ''tiktok_summary'' ''Summary information''
       (summary_frame
          [(''Followers'', JNum followers),
           (''Following'', JNum following),
           (''Likes received'', likes_received),
           (''Videos posted'', JNum videos_posted),
           (''Likes given'', JNum likes_given),
           (''Comments posted'', JNum comments_posted),
           (''Messages sent'', JNum sent_count),
           (''Messages received'', JNum received_count),
           (''Videos watched'', JNum videos_watched)]))))))))))))))))"

definition get_activity_video_browsing_list_data :: "json \<Rightarrow> exn + json" where
  "get_activity_video_browsing_list_data data =
     get_list data [''Activity'', ''Video Browsing History'', ''VideoList'']"

text \<open>
  \<^verbatim>\<open>pd.DataFrame(data, columns=[...])\<close>. A list whose first element is a dictionary is a
  list of records: each element that is not a dictionary goes through \<^verbatim>\<open>dict\<close>, and a row
  holds the record's value under each column, or \<^verbatim>\<open>NaN\<close>. A list whose first element is a
  list is a list of rows: the rows are padded with \<^verbatim>\<open>None\<close> to the longest, which must
  have as many values as there are columns. A list that starts with anything else has
  the wrong shape. A dictionary gives the columns themselves: lists of one length,
  dictionaries joined on their keys, or single values repeated. Anything else is refused.
\<close>

fun pair_of :: "json \<Rightarrow> exn + (json \<times> json)" where
  "pair_of (JArr [a, b]) = try_bind (dict_key a) (\<lambda>k. Inr (k, b))"
| "pair_of (JArr xs) = Inl ValueError"
| "pair_of (JStr [a, b]) = Inr (JStr [a], JStr [b])"
| "pair_of (JStr s) = Inl ValueError"
| "pair_of (JObj [p, q]) = Inr (JStr (fst p), JStr (fst q))"
| "pair_of (JObj kvs) = Inl ValueError"
| "pair_of v = Inl TypeError"

text \<open>\<^verbatim>\<open>d if type(d) is dict else dict(d)\<close>, as the pairs of the dictionary in insertion order.\<close>

fun as_dict :: "json \<Rightarrow> exn + (json \<times> json) list" where
  "as_dict (JObj kvs) = Inr (map (\<lambda>kv. (JStr (fst kv), snd kv)) kvs)"
| "as_dict (JArr ps) = try_map pair_of ps"
| "as_dict (JStr s) = (if s = [] then Inr [] else Inl ValueError)"
| "as_dict v = Inl TypeError"

definition records_frame :: "string list \<Rightarrow> json list \<Rightarrow> exn + json option list list" where
  "records_frame columns records =
     try_bind (try_map as_dict records) (\<lambda>dicts.
     Inr (map (\<lambda>d. map (\<lambda>c. map_of (rev d) (JStr c)) columns) dicts))"

text \<open>The values of a row given as a list, a dictionary (its keys) or a string (its characters).\<close>

fun row_items :: "json \<Rightarrow> exn + json list" where
  "row_items (JArr xs) = Inr xs"
| "row_items (JObj kvs) = Inr (map (\<lambda>kv. JStr (fst kv)) kvs)"
| "row_items (JStr s) = Inr (map (\<lambda>c. JStr [c]) s)"
| "row_items v = Inl TypeError"

definition lists_frame :: "string list \<Rightarrow> json list \<Rightarrow> exn + json option list list" where
  "lists_frame columns rows =
     try_bind (try_map row_items rows) (\<lambda>content.
     let width = fold (\<lambda>r k. max (length r) k) content 0 in
     if width \<noteq> length columns then Inl ValueError
     else Inr (map (\<lambda>r. map Some r @ replicate (width - length r) (Some JNull)) content))"

datatype column = Absent | Scalar json | Listed "json list" | Keyed "(string \<times> json) list"

definition column_of :: "(string \<times> json) list \<Rightarrow> string \<Rightarrow> column" where
  "column_of kvs c =
     (case map_of kvs c of
        None \<Rightarrow> Absent
      | Some v \<Rightarrow> (case v of JNull \<Rightarrow> Absent | JArr xs \<Rightarrow> Listed xs | JObj d \<Rightarrow> Keyed d | _ \<Rightarrow> Scalar v))"

fun listed :: "column list \<Rightarrow> json list list" where
  "listed [] = []"
| "listed (Listed xs # cs) = xs # listed cs"
| "listed (c # cs) = listed cs"

fun keyed :: "column list \<Rightarrow> (string \<times> json) list list" where
  "keyed [] = []"
| "keyed (Keyed d # cs) = d # keyed cs"
| "keyed (c # cs) = keyed cs"

fun at_index :: "nat \<Rightarrow> column \<Rightarrow> json option" where
  "at_index i (Listed xs) = Some (xs ! i)"
| "at_index i (Scalar v) = Some v"
| "at_index i c = None"

fun at_key :: "string \<Rightarrow> column \<Rightarrow> json option" where
  "at_key k (Keyed d) = map_of d k"
| "at_key k (Scalar v) = Some v"
| "at_key k c = None"

definition columns_frame :: "string list \<Rightarrow> (string \<times> json) list \<Rightarrow> exn + json option list list" where
  "columns_frame columns kvs =
     (let cs = map (column_of kvs) columns in
      if list_all (\<lambda>c. c = Absent) cs then Inr []
      else if listed cs = [] \<and> keyed cs = [] then Inl ValueError
      else if listed cs \<noteq> [] then
        (if keyed cs \<noteq> [] \<or> \<not> list_all (\<lambda>xs. length xs = length (hd (listed cs))) (listed cs)
         then Inl ValueError
         else Inr (map (\<lambda>i. map (at_index i) cs) [0 ..< length (hd (listed cs))]))
      else Inr (map (\<lambda>k. map (at_key k) cs) (rev (remdups (rev (concat (map (map fst) (keyed cs))))))))"

definition DataFrame :: "json \<Rightarrow> string list \<Rightarrow> exn + json option list list" where
  "DataFrame data columns =
     (case data of
        JArr records \<Rightarrow>
          (case records of
             [] \<Rightarrow> Inr []
           | first # others \<Rightarrow>
               (case first of
                  JObj d \<Rightarrow> records_frame columns records
                | JArr xs \<Rightarrow> lists_frame columns records
                | _ \<Rightarrow> Inl ValueError))
      | JObj kvs \<Rightarrow> columns_frame columns kvs
      | _ \<Rightarrow> Inl ValueError)"

definition found :: "json option \<Rightarrow> cell" where
  "found v = (case v of None \<Rightarrow> Missing | Some x \<Rightarrow> Found x)"

text \<open>
  \<^verbatim>\<open>df["Date"].map(parse_datetime)\<close> and the time slot of each row, row by row. With no
  row the mapped column is no column of dates and \<^verbatim>\<open>date.dt\<close> raises.
\<close>

fun viewed_rows :: "strptime \<Rightarrow> json option list list \<Rightarrow> exn + cell list list" where
  "viewed_rows sp [] = Inr []"
| "viewed_rows sp (row # rows) =
     (case parse_datetime sp (case row ! 0 of None \<Rightarrow> JNull | Some v \<Rightarrow> v) of
        Inl e \<Rightarrow> Inl e
      | Inr date \<Rightarrow>
          try_bind (viewed_rows sp rows) (\<lambda>rest.
          Inr ([found (row ! 0), Timeslot (hour_of date), found (row ! 1)] # rest)))"

definition extract_videos_viewed :: "strptime \<Rightarrow> json \<Rightarrow> exn + extraction_result option" where
  "extract_videos_viewed sp data =
     try_bind (get_activity_video_browsing_list_data data) (\<lambda>videos.
     try_bind (DataFrame videos [''Date'', ''Link'']) (\<lambda>df.
     try_bind (viewed_rows sp df) (\<lambda>rows.
     if rows = [] then Inl AttributeError
     else Inr (Some (ExtractionResult ''tiktok_videos_viewed'' ''Video views'' rows)))))"

text \<open>
  \<open>post_stats\<close>: the hour buckets in the order they were first seen, each with its
  number of videos and its sum of likes. With no bucket the transposed frame has no index
  of dates and \<^verbatim>\<open>df.index.strftime\<close> raises.
\<close>

fun bump_stats :: "int \<Rightarrow> int \<Rightarrow> (int \<times> int \<times> int) list \<Rightarrow> (int \<times> int \<times> int) list" where
  "bump_stats key likes [] = [(key, 1, likes)]"
| "bump_stats key likes ((k, videos, received) # stats) =
     (if k = key then (k, videos + 1, received + likes) # stats
      else (k, videos, received) # bump_stats key likes stats)"

fun post_loop :: "(int \<times> json) iterator \<Rightarrow> (int \<times> int \<times> int) list \<Rightarrow> exn + (int \<times> int \<times> int) list" where
  "post_loop [] post_stats = Inr post_stats"
| "post_loop (Inl e # videos) post_stats = Inl e"
| "post_loop (Inr (date, video) # videos) post_stats =
     (case try_bind (getitem video ''Likes'') py_int of
        Inl e \<Rightarrow> Inl e
      | Inr likes \<Rightarrow> post_loop videos (bump_stats (hourly_key date) likes post_stats))"

definition extract_video_posts :: "strptime \<Rightarrow> json \<Rightarrow> exn + extraction_result option" where
  "extract_video_posts sp data =
     try_bind (get_in data [''Video'', ''Videos'', ''VideoList'']) (\<lambda>video_list.
     if video_list = JNull then Inr None
     else
       try_bind (post_loop (get_date_filtered_items sp (py_iter video_list)) []) (\<lambda>post_stats.
       if post_stats = [] then Inl AttributeError
       else
         let exact = list_all (\<lambda>(key, videos, received). int64 videos \<and> int64 received) post_stats in
         Inr (Some (ExtractionResult ''tiktok_posts'' ''Video posts''
           (map (\<lambda>(key, videos, received).
                   [Formatted ''%Y-%m-%d'' (key - key mod 86400), Timeslot (hour_of key),
                    count_cell exact videos, count_cell exact received]) post_stats)))))"

text \<open>
  \<open>get_count_by_date_key\<close>: the counter is filled in the order of the iterator and its
  items are returned sorted; the keys are unique, so sorting the pairs is sorting by key.
\<close>

fun bump_count :: "int \<Rightarrow> (int \<times> int) list \<Rightarrow> (int \<times> int) list" where
  "bump_count key [] = [(key, 1)]"
| "bump_count key ((k, n) # item_count) =
     (if k = key then (k, n + 1) # item_count else (k, n) # bump_count key item_count)"

fun count_loop :: "int iterator \<Rightarrow> (int \<Rightarrow> int) \<Rightarrow> (int \<times> int) list \<Rightarrow> exn + (int \<times> int) list" where
  "count_loop [] key_func item_count = Inr item_count"
| "count_loop (Inl e # timestamps) key_func item_count = Inl e"
| "count_loop (Inr timestamp # timestamps) key_func item_count =
     count_loop timestamps key_func (bump_count (key_func timestamp) item_count)"

definition get_count_by_date_key :: "int iterator \<Rightarrow> (int \<Rightarrow> int) \<Rightarrow> exn + (int \<times> int) list" where
  "get_count_by_date_key timestamps key_func =
     try_bind (count_loop timestamps key_func []) (\<lambda>item_count. Inr (sort_key fst item_count))"

definition count_at :: "(int \<times> int) list \<Rightarrow> int \<Rightarrow> int" where
  "count_at counts key = (case map_of counts key of None \<Rightarrow> 0 | Some n \<Rightarrow> n)"

definition extract_comments_and_likes :: "strptime \<Rightarrow> json \<Rightarrow> exn + extraction_result option" where
  "extract_comments_and_likes sp data =
     try_bind (get_list data [''Comment'', ''Comments'', ''CommentsList'']) (\<lambda>comment_list.
     try_bind (get_count_by_date_key
                 (get_all_first (get_date_filtered_items sp (py_iter comment_list))) hourly_key) (\<lambda>comment_counts.
     try_bind (get_list data [''Activity'', ''Like List'', ''ItemFavoriteList'']) (\<lambda>like_list.
     try_bind (get_count_by_date_key
                 (get_all_first (get_date_filtered_items sp (py_iter like_list))) hourly_key) (\<lambda>likes_given_counts.
     if likes_given_counts = [] then Inr None
     else Inr (Some (ExtractionResult ''tiktok_comments_and_likes'' ''Comments and likes''
       (map (\<lambda>key. [Formatted ''%Y-%m-%d %H:00:00'' (hourly_key key), Timeslot (hour_of key),
                     Number (count_at comment_counts key), Number (count_at likes_given_counts key)])
            (sort (remdups (map fst comment_counts @ map fst likes_given_counts))))))))))"

text \<open>With no session the column \<^verbatim>\<open>Start\<close> is no column of dates and \<^verbatim>\<open>df["Start"].dt\<close> raises.\<close>

definition extract_session_info :: "strptime \<Rightarrow> json \<Rightarrow> exn + extraction_result option" where
  "extract_session_info sp data =
     try_bind (get_list data [''Video'', ''Videos'', ''VideoList'']) (\<lambda>posted.
     try_bind (get_list data [''Activity'', ''Video Browsing History'', ''VideoList'']) (\<lambda>viewed.
     try_bind (get_list data [''Comment'', ''Comments'', ''CommentsList'']) (\<lambda>commented.
     try_bind (collect (get_all_first (get_date_filtered_items sp
                 (py_iter posted @ py_iter viewed @ py_iter commented)))) (\<lambda>dates.
     if get_sessions dates = [] then Inl AttributeError
     else
       Inr (Some (ExtractionResult ''tiktok_session_info'' ''Session information''
         (map (\<lambda>(start, en, duration). [Formatted ''%Y-%m-%d %H:%M'' (start - start mod 60), Duration duration])
              (get_sessions dates))))))))"

text \<open>
  \<open>anon_ids\<close>: the \<^verbatim>\<open>defaultdict\<close> whose factory draws the next value of the counter. A
  key already present returns its value and leaves the counter alone.
\<close>

record anon =
  ids :: "(json \<times> int) list"
  counter :: int

definition anon_ids :: "anon \<Rightarrow> json \<Rightarrow> exn + (int \<times> anon)" where
  "anon_ids st k =
     try_bind (dict_key k) (\<lambda>key.
       case map_of (ids st) key of
         Some n \<Rightarrow> Inr (n, st)
       | None \<Rightarrow> Inr (counter st, \<lparr>ids = ids st @ [(key, counter st)], counter = counter st + 1\<rparr>))"

fun messages_loop :: "strptime \<Rightarrow> json iterator \<Rightarrow> anon \<Rightarrow> cell list list \<Rightarrow> exn + cell list list" where
  "messages_loop sp [] st table = Inr table"
| "messages_loop sp (Inl e # items) st table = Inl e"
| "messages_loop sp (Inr item # items) st table =
     (case try_bind (getitem item ''From'') (anon_ids st) of
        Inl e \<Rightarrow> Inl e
      | Inr (n, st') \<Rightarrow>
          (case item_date sp item of
             Inl e \<Rightarrow> Inl e
           | Inr sent \<Rightarrow>
               messages_loop sp items st'
                 (table @ [[Number n, Formatted ''%Y-%m-%d %H:%M'' (sent - sent mod 60)]])))"

definition extract_direct_messages :: "strptime \<Rightarrow> json \<Rightarrow> exn + extraction_result option" where
  "extract_direct_messages sp data =
     try_bind (get_in data [''Direct Messages'', ''Chat History'', ''ChatHistory'']) (\<lambda>history.
     try_bind (get_user_name data) (\<lambda>user_name.
     try_bind (anon_ids \<lparr>ids = [], counter = 1\<rparr> user_name) (\<lambda>own.
     try_bind (flatten_chat_history history) (\<lambda>messages.
     try_bind (messages_loop sp messages (snd own) []) (\<lambda>table.
     Inr (Some (ExtractionResult ''tiktok_direct_messages'' ''Direct Message Activity'' table)))))))"

section \<open>Export reader\<close>

text \<open>
  What the file system and the libraries answer for one path: \<open>direct\<close> is
  \<^verbatim>\<open>open\<close> followed by \<^verbatim>\<open>json.load\<close> (the document, or the exception either raises);
  \<open>archive\<close> is \<^verbatim>\<open>zipfile.ZipFile\<close> on the same path (the exception it raises, or the
  entries in archive order, each a name and what \<^verbatim>\<open>json.load\<close> does on its content).
\<close>

record export_file =
  direct :: "exn + json"
  archive :: "exn + (string \<times> (exn + json)) list"

definition load_tiktok_data :: "exn + json \<Rightarrow> exn + json" where
  "load_tiktok_data json_file =
     try_bind json_file (\<lambda>data.
     try_bind (get_user_name data) (\<lambda>user_name.
     if \<not> truthy user_name then Inl IOError else Inr data))"

definition endswith :: "string \<Rightarrow> string \<Rightarrow> bool" where
  "endswith name ending =
     (length ending \<le> length name \<and> drop (length name - length ending) name = ending)"

fun scan_entries :: "(string \<times> (exn + json)) list \<Rightarrow> exn + json list" where
  "scan_entries [] = Inr []"
| "scan_entries ((name, json_file) # entries) =
     (if \<not> endswith name ''.json'' then scan_entries entries
      else (case load_tiktok_data json_file of
              Inr data \<Rightarrow> Inr [data]
            | Inl e \<Rightarrow> if e = IOError \<or> e = JSONDecodeError then scan_entries entries else Inl e))"

definition get_json_data_from_zip :: "export_file \<Rightarrow> exn + json list" where
  "get_json_data_from_zip zip_file = try_bind (archive zip_file) scan_entries"

definition get_json_data_from_file :: "export_file \<Rightarrow> exn + json list" where
  "get_json_data_from_file file =
     (case load_tiktok_data (direct file) of
        Inr data \<Rightarrow> Inr [data]
      | Inl e \<Rightarrow>
          if e = JSONDecodeError \<or> e = UnicodeDecodeError then get_json_data_from_zip file
          else Inl e)"

section \<open>Extraction orchestrator\<close>

definition extractors :: "strptime \<Rightarrow> (json \<Rightarrow> exn + extraction_result option) list" where
  "extractors sp =
     [extract_summary_data sp,
      extract_video_posts sp,
      extract_comments_and_likes sp,
      extract_videos_viewed sp,
      extract_session_info sp,
      extract_direct_messages sp]"

text \<open>The comprehension: each extractor in turn, the first exception ends it, \<^verbatim>\<open>None\<close> is dropped.\<close>

fun run_extractors :: "(json \<Rightarrow> exn + extraction_result option) list \<Rightarrow> json \<Rightarrow> exn + extraction_result list" where
  "run_extractors [] data = Inr []"
| "run_extractors (extractor # rest) data =
     (case extractor data of
        Inl e \<Rightarrow> Inl e
      | Inr table \<Rightarrow>
          (case run_extractors rest data of
             Inl e \<Rightarrow> Inl e
           | Inr tables \<Rightarrow> Inr (case table of None \<Rightarrow> tables | Some t \<Rightarrow> t # tables)))"

definition extract_tiktok_data :: "strptime \<Rightarrow> export_file \<Rightarrow> exn + extraction_result list option" where
  "extract_tiktok_data sp zip_file =
     (case get_json_data_from_file zip_file of
        Inl e \<Rightarrow> Inl e
      | Inr [] \<Rightarrow> Inr None
      | Inr (data # others) \<Rightarrow> try_bind (run_extractors (extractors sp) data) (\<lambda>tables. Inr (Some tables)))"

section \<open>Data donation flow\<close>

text \<open>
  The generator \<open>process\<close> is run against the list of responses the boundary sends
  back, one per command yielded. A run is the commands yielded, the log, and how it
  stopped: the generator returned, it is suspended at a yield with no response left, or
  an exception left it.
\<close>

datatype payload = PayloadString string | PayloadTrue | PayloadFalse | PayloadJSON string | PayloadVoid

datatype body =
    PromptFileInput string
  | PromptConfirm
  | PromptConsentForm "extraction_result list" "(string \<times> string) list"

datatype command =
    CommandUIRender string body int
  | CommandSystemDonate string string

datatype status = Returned | Suspended | Raised exn

record run =
  commands :: "command list"
  meta_data :: "(string \<times> string) list"
  status :: status

record processor =
  platform :: string
  mime_types :: string
  extractor :: "string \<Rightarrow> exn + extraction_result list option"
  session_id :: string

definition log :: "processor \<Rightarrow> (string \<times> string) list \<Rightarrow> string \<Rightarrow> (string \<times> string) list" where
  "log p meta message = meta @ [(''debug'', platform p @ '': '' @ message)]"

definition render_donation_page :: "string \<Rightarrow> body \<Rightarrow> int \<Rightarrow> command" where
  "render_donation_page pf b progress = CommandUIRender pf b progress"

definition file_page :: "processor \<Rightarrow> command" where
  "file_page p = render_donation_page (platform p) (PromptFileInput (mime_types p)) 0"

definition retry_page :: "processor \<Rightarrow> command" where
  "retry_page p = render_donation_page (platform p) PromptConfirm 0"

definition consent_page :: "processor \<Rightarrow> extraction_result list \<Rightarrow> (string \<times> string) list \<Rightarrow> command" where
  "consent_page p tables meta = render_donation_page (platform p) (PromptConsentForm tables meta) 0"

definition donate :: "string \<Rightarrow> string \<Rightarrow> command" where
  "donate key json_string = CommandSystemDonate key json_string"

definition stop :: "status \<Rightarrow> (string \<times> string) list \<Rightarrow> run" where
  "stop s meta = \<lparr>commands = [], meta_data = meta, status = s\<rparr>"

definition emit :: "command \<Rightarrow> run \<Rightarrow> run" where
  "emit c r = r\<lparr>commands := c # commands r\<rparr>"

fun process :: "processor \<Rightarrow> (string \<times> string) list \<Rightarrow> payload list \<Rightarrow> run" where
  "process p meta [] = emit (file_page p) (stop Suspended meta)"
| "process p meta (file_result # rs) =
     emit (file_page p)
       (case file_result of
          PayloadString v \<Rightarrow>
            (let meta1 = log p meta ''extracting file'' in
             case extractor p v of
               Inl e \<Rightarrow>
                 if e = IOError then
                   (let meta2 = log p meta1 ''prompt confirmation to retry file selection'' in
                    emit (retry_page p)
                      (case rs of [] \<Rightarrow> stop Suspended meta2 | retry_result # rs' \<Rightarrow> stop Returned meta2))
                 else if e = InvalidFileError then
                   (let meta2 = log p meta1 ''invalid file detected, prompting for retry'' in
                    emit (retry_page p)
                      (case rs of
                         [] \<Rightarrow> stop Suspended meta2
                       | retry_result # rs' \<Rightarrow>
                           if retry_result = PayloadTrue then process p meta2 rs' else stop Returned meta2))
                 else stop (Raised e) meta1
             | Inr None \<Rightarrow>
                 emit (retry_page p)
                   (case rs of
                      [] \<Rightarrow> stop Suspended meta1
                    | try_again # rs' \<Rightarrow>
                        if try_again = PayloadTrue then process p meta1 rs' else stop Returned meta1)
             | Inr (Some extraction_result) \<Rightarrow>
                 (let meta2 = log p meta1 ''extraction successful, go to consent form'';
                      meta3 = log p meta2 ''prompt consent''
                  in emit (consent_page p extraction_result meta2)
                       (case rs of
                          [] \<Rightarrow> stop Suspended meta3
                        | consent_result # rs' \<Rightarrow>
                            (case consent_result of
                               PayloadJSON v' \<Rightarrow>
                                 (let meta4 = log p meta3 ''donate consent data'' in
                                  emit (donate (session_id p @ ''-'' @ platform p) v')
                                    (case rs' of
                                       [] \<Rightarrow> stop Suspended meta4
                                     | sent # rs'' \<Rightarrow> process p meta4 rs''))
                             | _ \<Rightarrow> process p meta3 rs'))))
        | _ \<Rightarrow> stop Returned (log p meta ''skip to next step''))"

text \<open>
  The script's processor for the platform. \<open>fs\<close> is the file system: what each path
  opens as.
\<close>

definition tik_tok_data_donation :: "strptime \<Rightarrow> (string \<Rightarrow> export_file) \<Rightarrow> string \<Rightarrow> processor" where
  "tik_tok_data_donation sp fs sid =
     \<lparr>platform = ''TikTok'',
      mime_types = ''application/zip, text/plain, application/json'',
      extractor = (\<lambda>path. extract_tiktok_data sp (fs path)),
      session_id = sid\<rparr>"

section \<open>Notions used in the statements\<close>

text \<open>
  The analysis window as \<open>get_date_filtered_items\<close> tests it: an instant is dropped when
  it is before \<open>filter_start\<close> or after \<open>filter_end\<close>, so both bounds are kept.
\<close>

definition in_window :: "int \<Rightarrow> bool" where
  "in_window t = (filter_start \<le> t \<and> t \<le> filter_end)"

text \<open>The items whose parsed \<^verbatim>\<open>Date\<close> lies in the window, each with its instant, in source order.\<close>

definition windowed :: "strptime \<Rightarrow> json list \<Rightarrow> (int \<times> json) list" where
  "windowed sp items =
     filter (\<lambda>(t, item). in_window t) (map (\<lambda>item. (projr (item_date sp item), item)) items)"

text \<open>The count held in column \<open>i\<close> of a row.\<close>

definition number_at :: "nat \<Rightarrow> cell list \<Rightarrow> int" where
  "number_at i row = (case row ! i of Number n \<Rightarrow> n | Wide n \<Rightarrow> n | _ \<Rightarrow> 0)"

definition total_videos :: "(int \<times> int \<times> int) list \<Rightarrow> int" where
  "total_videos stats = sum_list (map (\<lambda>(k, v, l). v) stats)"

definition total_likes :: "(int \<times> int \<times> int) list \<Rightarrow> int" where
  "total_likes stats = sum_list (map (\<lambda>(k, v, l). l) stats)"

text \<open>
  What a document holds under a path of keys, read off the document alone: null when a
  key of the path is absent or holds null, nothing when the path runs into a value that
  is not a dictionary.
\<close>

fun value_at :: "json \<Rightarrow> string list \<Rightarrow> json option" where
  "value_at v [] = Some v"
| "value_at (JObj kvs) (k # ks) =
     (case map_of kvs k of
        None \<Rightarrow> Some JNull
      | Some v \<Rightarrow> if v = JNull then Some JNull else value_at v ks)"
| "value_at v (k # ks) = None"

text \<open>The source items of a section: the list under its path, no item when the section is absent.\<close>

definition items_at :: "json \<Rightarrow> string list \<Rightarrow> json list option" where
  "items_at data path =
     (case value_at data path of
        Some (JArr xs) \<Rightarrow> Some xs
      | Some JNull \<Rightarrow> Some []
      | _ \<Rightarrow> None)"

text \<open>The messages of the chat history: those of every thread, thread after thread.\<close>

definition messages_at :: "json \<Rightarrow> json list option" where
  "messages_at data =
     (case value_at data [''Direct Messages'', ''Chat History'', ''ChatHistory''] of
        Some (JObj threads) \<Rightarrow>
          map_option concat (those (map (\<lambda>kv. case snd kv of JArr ms \<Rightarrow> Some ms | _ \<Rightarrow> None) threads))
      | Some JNull \<Rightarrow> Some []
      | _ \<Rightarrow> None)"

text \<open>Every item has a \<^verbatim>\<open>Date\<close> that parses.\<close>

definition datable :: "strptime \<Rightarrow> json list \<Rightarrow> bool" where
  "datable sp items = list_all (\<lambda>item. \<not> isl (item_date sp item)) items"

text \<open>The likes of a video as \<^verbatim>\<open>int(video["Likes"])\<close> reads them, and the sender of a message.\<close>

definition likes_of :: "json \<Rightarrow> exn + int" where
  "likes_of video = try_bind (getitem video ''Likes'') py_int"

definition sender_of :: "json \<Rightarrow> json" where
  "sender_of message = projr (getitem message ''From'')"

text \<open>
  First-seen numbering: the identifier of a key is one more than the number of distinct
  keys met before its first occurrence.
\<close>

definition first_seen_id :: "json list \<Rightarrow> json \<Rightarrow> int" where
  "first_seen_id keys k = 1 + int (card (set (takeWhile (\<lambda>k'. k' \<noteq> k) keys)))"

text \<open>The dictionary key under which a message's sender is looked up.\<close>

definition sender_key :: "json \<Rightarrow> json" where
  "sender_key item = projr (try_bind (getitem item ''From'') dict_key)"

text \<open>The identifier map \<open>st\<close> holds exactly the first-seen numbering of the keys \<open>ks\<close> met so far.\<close>

definition tracks :: "anon \<Rightarrow> json list \<Rightarrow> bool" where
  "tracks st ks =
     (counter st = 1 + int (card (set ks))
      \<and> (\<forall>k. map_of (ids st) k = (if k \<in> set ks then Some (first_seen_id ks k) else None)))"

text \<open>What an extractor contributes to the result list for a document.\<close>

definition produced :: "json \<Rightarrow> (json \<Rightarrow> exn + extraction_result option) \<Rightarrow> extraction_result option" where
  "produced data ex = (case ex data of Inl e \<Rightarrow> None | Inr table \<Rightarrow> table)"

text \<open>The table identifiers in the order of the list \<open>extractors\<close>.\<close>

definition extraction_order :: "string list" where
  "extraction_order =
     [''tiktok_summary'', ''tiktok_posts'', ''tiktok_comments_and_likes'',
      ''tiktok_videos_viewed'', ''tiktok_session_info'', ''tiktok_direct_messages'']"

text \<open>The count a summary table shows in the row of a description.\<close>

definition count_of :: "extraction_result \<Rightarrow> string \<Rightarrow> int option" where
  "count_of r name =
     (case filter (\<lambda>row. row ! 0 = Text name) (data_frame r) of
        [row] \<Rightarrow> Some (number_at 1 row)
      | _ \<Rightarrow> None)"

text \<open>The sum of the counts of column \<open>i\<close> over the rows of a table.\<close>

definition column_total :: "nat \<Rightarrow> extraction_result \<Rightarrow> int" where
  "column_total i r = sum_list (map (number_at i) (data_frame r))"

text \<open>An extractor returns on a document: it answers a table or \<^verbatim>\<open>None\<close> and raises nothing.\<close>

definition ran :: "json \<Rightarrow> (json \<Rightarrow> exn + extraction_result option) \<Rightarrow> bool" where
  "ran data ex = (\<not> isl (ex data))"

section \<open>Example exports\<close>

text \<open>
  A small export of the user \<^verbatim>\<open>alice\<close>: two viewed videos (one from 2019), a like, a posted
  video, a comment, and a chat whose first message (from 2019) is from \<^verbatim>\<open>bob\<close>.
\<close>

definition example_profile :: json where
  "example_profile = JObj [(''Profile Information'', JObj [(''ProfileMap'',
      JObj [(''userName'', JStr ''alice''), (''likesReceived'', JStr ''10'')])])]"

definition example_viewed :: "json list" where
  "example_viewed =
     [JObj [(''Date'', JStr ''2019-03-01 10:00:00''), (''Link'', JStr ''https://v/1'')],
      JObj [(''Date'', JStr ''2022-05-01 10:00:00''), (''Link'', JStr ''https://v/2'')]]"

definition example_liked :: "json list" where
  "example_liked = [JObj [(''Date'', JStr ''2022-05-01 10:02:00''), (''Link'', JStr ''https://v/2'')]]"

definition example_posted :: "json list" where
  "example_posted = [JObj [(''Date'', JStr ''2022-06-01 12:30:00''), (''Likes'', JStr ''3'')]]"

definition example_commented :: "json list" where
  "example_commented = [JObj [(''Date'', JStr ''2022-05-01 10:04:00''), (''Comment'', JStr ''nice'')]]"

definition example_messages :: "json list" where
  "example_messages =
     [JObj [(''Date'', JStr ''2019-01-01 09:00:00''), (''From'', JStr ''bob''), (''Content'', JStr ''hi'')],
      JObj [(''Date'', JStr ''2022-01-01 09:01:00''), (''From'', JStr ''alice''), (''Content'', JStr ''hello'')]]"

definition example_export :: json where
  "example_export = JObj
     [(''Profile'', example_profile),
      (''Activity'', JObj
         [(''Video Browsing History'', JObj [(''VideoList'', JArr example_viewed)]),
          (''Like List'', JObj [(''ItemFavoriteList'', JArr example_liked)])]),
      (''Video'', JObj [(''Videos'', JObj [(''VideoList'', JArr example_posted)])]),
      (''Comment'', JObj [(''Comments'', JObj [(''CommentsList'', JArr example_commented)])]),
      (''Direct Messages'', JObj [(''Chat History'', JObj [(''ChatHistory'', JObj
         [(''Chat History with bob:'', JArr example_messages)])])])]"

definition minimal_export :: json where
  "minimal_export = JObj [(''Profile'', example_profile)]"

definition empty_chat_export :: json where
  "empty_chat_export = JObj
     [(''Profile'', example_profile),
      (''Direct Messages'', JObj [(''Chat History'', JObj [(''ChatHistory'', JObj [])])])]"

definition none_likes_export :: json where
  "none_likes_export = JObj
     [(''Profile'', example_profile),
      (''Video'', JObj [(''Videos'', JObj [(''VideoList'', JArr
         [JObj [(''Date'', JStr ''2022-06-01 12:30:00''), (''Likes'', JStr ''None'')]])])])]"

definition missing_likes_export :: json where
  "missing_likes_export = JObj
     [(''Profile'', example_profile),
      (''Video'', JObj [(''Videos'', JObj [(''VideoList'', JArr
         [JObj [(''Date'', JStr ''2022-06-01 12:30:00'')]])])])]"

definition example_file :: export_file where
  "example_file = \<lparr>direct = Inr example_export, archive = Inl BadZipFile\<rparr>"

definition invalid_file :: export_file where
  "invalid_file = \<lparr>direct = Inr (JObj []), archive = Inl BadZipFile\<rparr>"

definition unreadable_file :: export_file where
  "unreadable_file = \<lparr>direct = Inl IOError, archive = Inl IOError\<rparr>"

definition undecodable_file :: export_file where
  "undecodable_file = \<lparr>direct = Inl JSONDecodeError, archive = Inr [(''user_data.json'', Inl JSONDecodeError)]\<rparr>"

definition boundary_item :: json where
  "boundary_item = JObj [(''Date'', JStr ''2025-01-01 00:00:00'')]"

text \<open>An export whose only viewed video is dated at the very end of the window.\<close>

definition boundary_export :: json where
  "boundary_export = JObj
     [(''Profile'', example_profile),
      (''Activity'', JObj [(''Video Browsing History'', JObj [(''VideoList'', JArr [boundary_item])])])]"

text \<open>The example without its posted videos, and without its direct messages.\<close>

definition no_posts_export :: json where
  "no_posts_export = JObj
     [(''Profile'', example_profile),
      (''Activity'', JObj
         [(''Video Browsing History'', JObj [(''VideoList'', JArr example_viewed)]),
          (''Like List'', JObj [(''ItemFavoriteList'', JArr example_liked)])]),
      (''Comment'', JObj [(''Comments'', JObj [(''CommentsList'', JArr example_commented)])]),
      (''Direct Messages'', JObj [(''Chat History'', JObj [(''ChatHistory'', JObj
         [(''Chat History with bob:'', JArr example_messages)])])])]"

definition no_messages_export :: json where
  "no_messages_export = JObj
     [(''Profile'', example_profile),
      (''Activity'', JObj
         [(''Video Browsing History'', JObj [(''VideoList'', JArr example_viewed)]),
          (''Like List'', JObj [(''ItemFavoriteList'', JArr example_liked)])]),
      (''Video'', JObj [(''Videos'', JObj [(''VideoList'', JArr example_posted)])]),
      (''Comment'', JObj [(''Comments'', JObj [(''CommentsList'', JArr example_commented)])])]"

definition no_posts_file :: export_file where
  "no_posts_file = \<lparr>direct = Inr no_posts_export, archive = Inl BadZipFile\<rparr>"

definition no_messages_file :: export_file where
  "no_messages_file = \<lparr>direct = Inr no_messages_export, archive = Inl BadZipFile\<rparr>"

definition minimal_file :: export_file where
  "minimal_file = \<lparr>direct = Inr minimal_export, archive = Inl BadZipFile\<rparr>"

text \<open>The tables the extractors give for \<open>example_export\<close>.\<close>

definition example_summary_table :: extraction_result where
  "example_summary_table = ExtractionResult ''tiktok_summary'' ''Summary information''
     [[Text ''Followers'', Number 0],
      [Text ''Following'', Number 0],
      [Text ''Likes received'', Found (JStr ''10'')],
      [Text ''Videos posted'', Number 1],
      [Text ''Likes given'', Number 1],
      [Text ''Comments posted'', Number 1],
      [Text ''Messages sent'', Number 1],
      [Text ''Messages received'', Number 0],
      [Text ''Videos watched'', Number 1]]"

definition example_posts_table :: extraction_result where
  "example_posts_table = ExtractionResult ''tiktok_posts'' ''Video posts''
     [[Formatted ''%Y-%m-%d'' (datetime 2022 6 1 0 0 0), Timeslot 12, Number 1, Number 3]]"

definition example_comments_and_likes_table :: extraction_result where
  "example_comments_and_likes_table = ExtractionResult ''tiktok_comments_and_likes'' ''Comments and likes''
     [[Formatted ''%Y-%m-%d %H:00:00'' (datetime 2022 5 1 10 0 0), Timeslot 10, Number 1, Number 1]]"

definition example_viewed_table :: extraction_result where
  "example_viewed_table = ExtractionResult ''tiktok_videos_viewed'' ''Video views''
     [[Found (JStr ''2019-03-01 10:00:00''), Timeslot 10, Found (JStr ''https://v/1'')],
      [Found (JStr ''2022-05-01 10:00:00''), Timeslot 10, Found (JStr ''https://v/2'')]]"

definition example_sessions_table :: extraction_result where
  "example_sessions_table = ExtractionResult ''tiktok_session_info'' ''Session information''
     [[Formatted ''%Y-%m-%d %H:%M'' (datetime 2022 5 1 10 0 0), Duration 240],
      [Formatted ''%Y-%m-%d %H:%M'' (datetime 2022 6 1 12 30 0), Duration 0]]"

definition example_messages_table :: extraction_result where
  "example_messages_table = ExtractionResult ''tiktok_direct_messages'' ''Direct Message Activity''
     [[Number 2, Formatted ''%Y-%m-%d %H:%M'' (datetime 2019 1 1 9 0 0)],
      [Number 1, Formatted ''%Y-%m-%d %H:%M'' (datetime 2022 1 1 9 1 0)]]"

definition example_tables :: "extraction_result list" where
  "example_tables =
     [example_summary_table, example_posts_table, example_comments_and_likes_table,
      example_viewed_table, example_sessions_table, example_messages_table]"

text \<open>The tables for \<open>no_posts_export\<close>: Video Posts gives none, and one session is left.\<close>

definition no_posts_tables :: "extraction_result list" where
  "no_posts_tables =
     [ExtractionResult ''tiktok_summary'' ''Summary information''
        [[Text ''Followers'', Number 0],
         [Text ''Following'', Number 0],
         [Text ''Likes received'', Found (JStr ''10'')],
         [Text ''Videos posted'', Number 0],
         [Text ''Likes given'', Number 1],
         [Text ''Comments posted'', Number 1],
         [Text ''Messages sent'', Number 1],
         [Text ''Messages received'', Number 0],
         [Text ''Videos watched'', Number 1]],
      example_comments_and_likes_table,
      example_viewed_table,
      ExtractionResult ''tiktok_session_info'' ''Session information''
        [[Formatted ''%Y-%m-%d %H:%M'' (datetime 2022 5 1 10 0 0), Duration 240]],
      example_messages_table]"

text \<open>The processor of the script over a file system in which every path opens as \<open>file\<close>.\<close>

definition example_processor :: "export_file \<Rightarrow> processor" where
  "example_processor file = tik_tok_data_donation strptime_iso (\<lambda>path. file) ''session''"

section \<open>Properties of the extraction\<close>

subsection \<open>Exceptions and iterators\<close>

lemma try_bind_Inr [simp]: "try_bind (Inr x) f = f x"
  by (simp add: try_bind_def)

lemma try_bind_Inl [simp]: "try_bind (Inl e) f = Inl e"
  by (simp add: try_bind_def)

lemma try_bind_eq_Inr: "(try_bind m f = Inr y) = (\<exists>x. m = Inr x \<and> f x = Inr y)"
  by (cases m) simp_all

subsection \<open>The window filter\<close>

lemma gdfi_total:
  "list_all (\<lambda>item. \<not> isl (item_date sp item)) items \<Longrightarrow>
     collect (get_date_filtered_items sp (map Inr items)) = Inr (windowed sp items)"
proof (induction items)
  case Nil
  then show ?case by (simp add: windowed_def)
next
  case (Cons item items)
  then obtain t where t: "item_date sp item = Inr t" by (cases "item_date sp item") auto
  have w: "windowed sp (item # items) = (if in_window t then (t, item) # windowed sp items else windowed sp items)"
    using t by (simp add: windowed_def)
  have c: "(t < filter_start \<or> t > filter_end) = (\<not> in_window t)" by (auto simp: in_window_def)
  from Cons have IH: "collect (get_date_filtered_items sp (map Inr items)) = Inr (windowed sp items)" by simp
  show ?case using t w c IH by simp
qed

lemma gdfi_parsed:
  "collect (get_date_filtered_items sp (map Inr items)) = Inr ys \<Longrightarrow>
     list_all (\<lambda>item. \<not> isl (item_date sp item)) items"
proof (induction items arbitrary: ys)
  case Nil
  then show ?case by simp
next
  case (Cons item items)
  show ?case
  proof (cases "item_date sp item")
    case (Inl e)
    then show ?thesis using Cons.prems by simp
  next
    case (Inr t)
    show ?thesis
    proof (cases "t < filter_start \<or> t > filter_end")
      case True
      then show ?thesis using Inr Cons by simp
    next
      case False
      then obtain xs where "collect (get_date_filtered_items sp (map Inr items)) = Inr xs"
        using Inr Cons.prems by (cases "collect (get_date_filtered_items sp (map Inr items))") auto
      then show ?thesis using Inr Cons.IH by simp
    qed
  qed
qed

lemma gdfi_collect:
  "(collect (get_date_filtered_items sp (map Inr items)) = Inr ys) =
     (list_all (\<lambda>item. \<not> isl (item_date sp item)) items \<and> ys = windowed sp items)"
  using gdfi_total[of sp items] gdfi_parsed[of sp items ys] by auto

lemma collect_map_Inr: "collect (map Inr xs) = Inr xs"
  by (induction xs) simp_all

lemma get_all_first_map: "get_all_first (map Inr xs) = map Inr (map fst xs)"
  by (simp add: get_all_first_def)

lemma windowed_Cons:
  "item_date sp item = Inr t \<Longrightarrow>
     windowed sp (item # items) = (if in_window t then (t, item) # windowed sp items else windowed sp items)"
  by (simp add: windowed_def)

lemma windowed_append: "windowed sp (xs @ ys) = windowed sp xs @ windowed sp ys"
  by (simp add: windowed_def)

lemma datable_append: "datable sp (xs @ ys) = (datable sp xs \<and> datable sp ys)"
  by (simp add: datable_def)

lemma gdfi_iterator:
  "datable sp items \<Longrightarrow> get_date_filtered_items sp (map Inr items) = map Inr (windowed sp items)"
proof (induction items)
  case Nil
  then show ?case by (simp add: windowed_def)
next
  case (Cons item items)
  then obtain t where t: "item_date sp item = Inr t"
    by (cases "item_date sp item") (auto simp: datable_def)
  have c: "(t < filter_start \<or> t > filter_end) = (\<not> in_window t)" by (auto simp: in_window_def)
  from Cons have IH: "get_date_filtered_items sp (map Inr items) = map Inr (windowed sp items)"
    by (simp add: datable_def)
  show ?case using t c IH by (simp add: windowed_Cons)
qed

lemma gdfi_stops:
  "\<not> datable sp items \<Longrightarrow>
     \<exists>pre e. get_date_filtered_items sp (map Inr items) = map Inr pre @ [Inl e]"
proof (induction items)
  case Nil
  then show ?case by (simp add: datable_def)
next
  case (Cons item items)
  show ?case
  proof (cases "item_date sp item")
    case (Inl e)
    then have "get_date_filtered_items sp (map Inr (item # items)) = map Inr [] @ [Inl e]" by simp
    then show ?thesis by blast
  next
    case (Inr t)
    with Cons.prems have "\<not> datable sp items" by (simp add: datable_def)
    from Cons.IH[OF this] obtain pre e where
      p: "get_date_filtered_items sp (map Inr items) = map Inr pre @ [Inl e]" by blast
    show ?thesis
    proof (cases "t < filter_start \<or> t > filter_end")
      case True
      then show ?thesis using Inr p by auto
    next
      case False
      then have "get_date_filtered_items sp (map Inr (item # items)) = map Inr ((t, item) # pre) @ [Inl e]"
        using Inr p by simp
      then show ?thesis by blast
    qed
  qed
qed

lemma collect_stops: "collect (map Inr xs @ [Inl e]) = Inl e"
  by (induction xs) simp_all

text \<open>
  Claim C8, as the code has it. Walking a list of items, the window filter raises when
  some \<^verbatim>\<open>Date\<close> does not parse; otherwise it yields exactly the items whose parsed instant
  \<open>t\<close> satisfies \<open>filter_start \<le> t \<le> filter_end\<close>, each with its instant and in source
  order: the window is closed at both ends.
\<close>

theorem get_date_filtered_items_window:
  "(collect (get_date_filtered_items sp (py_iter (JArr items))) = Inr ys) =
     (list_all (\<lambda>item. \<not> isl (item_date sp item)) items
      \<and> ys = filter (\<lambda>(t, item). filter_start \<le> t \<and> t \<le> filter_end)
                (map (\<lambda>item. (projr (item_date sp item), item)) items))"
  using gdfi_collect[of sp items ys] by (simp add: windowed_def in_window_def)

theorem get_date_filtered_items_window_witness:
  "list_all (\<lambda>item. \<not> isl (item_date strptime_iso item)) (boundary_item # example_viewed)
   \<and> collect (get_date_filtered_items strptime_iso (py_iter (JArr (boundary_item # example_viewed))))
       = Inr [(filter_end, boundary_item), (datetime 2022 5 1 10 0 0, example_viewed ! 1)]"
proof -
  have c: "collect (get_date_filtered_items strptime_iso (py_iter (JArr (boundary_item # example_viewed))))
       = Inr [(filter_end, boundary_item), (datetime 2022 5 1 10 0 0, example_viewed ! 1)]"
    by code_simp
  show ?thesis
    using c get_date_filtered_items_window[of strptime_iso "boundary_item # example_viewed"
        "[(filter_end, boundary_item), (datetime 2022 5 1 10 0 0, example_viewed ! 1)]"]
    by blast
qed

text \<open>
  Claim C8 as stated fails: an item dated exactly 2025-01-01 00:00:00 parses to
  \<open>filter_end\<close> and is kept.
\<close>

theorem window_end_kept:
  "strptime_iso ''2025-01-01 00:00:00'' = Inr filter_end
   \<and> collect (get_date_filtered_items strptime_iso (py_iter (JArr [boundary_item])))
       = Inr [(filter_end, boundary_item)]"
  by code_simp

subsection \<open>Sections of the document\<close>

lemma value_at_get_in: "value_at v path = Some x \<Longrightarrow> get_in v path = Inr x"
proof (induction v path rule: value_at.induct)
  case (1 v)
  then show ?case by simp
next
  case (2 kvs k ks)
  show ?case
  proof (cases "map_of kvs k")
    case None
    then show ?thesis using "2.prems" by simp
  next
    case (Some v)
    then show ?thesis using 2 by (cases "v = JNull") simp_all
  qed
qed simp_all

lemma items_at_get_in:
  "items_at data path = Some items \<Longrightarrow>
     get_in data path = Inr (JArr items) \<or> (get_in data path = Inr JNull \<and> items = [])"
proof -
  assume a: "items_at data path = Some items"
  then obtain x where x: "value_at data path = Some x"
    by (cases "value_at data path") (auto simp: items_at_def)
  from a x have "x = JArr items \<or> (x = JNull \<and> items = [])"
    by (cases x) (auto simp: items_at_def)
  then show ?thesis using value_at_get_in[OF x] by auto
qed

lemma items_at_get_list: "items_at data path = Some items \<Longrightarrow> get_list data path = Inr (JArr items)"
  using items_at_get_in[of data path items] by (auto simp: get_list_def)

lemma filtered_count_items:
  "items_at data path = Some items \<Longrightarrow> datable sp items \<Longrightarrow>
     filtered_count sp data path = Inr (int (length (windowed sp items)))"
  by (simp add: filtered_count_def items_at_get_list gdfi_iterator collect_map_Inr)

lemma flatten_threads:
  "those (map (\<lambda>kv. case snd kv of JArr ms \<Rightarrow> Some ms | _ \<Rightarrow> None) threads) = Some mss \<Longrightarrow>
     concat (map (\<lambda>kv. py_iter (snd kv)) threads) = map Inr (concat mss)"
proof (induction threads arbitrary: mss)
  case Nil
  then show ?case by simp
next
  case (Cons kv threads)
  from Cons.prems obtain ms where ms: "snd kv = JArr ms" by (cases "snd kv") simp_all
  with Cons.prems obtain rest where
    r: "those (map (\<lambda>kv. case snd kv of JArr ms \<Rightarrow> Some ms | _ \<Rightarrow> None) threads) = Some rest"
    and m: "mss = ms # rest"
    by (cases "those (map (\<lambda>kv. case snd kv of JArr ms \<Rightarrow> Some ms | _ \<Rightarrow> None) threads)") auto
  from Cons.IH[OF r] show ?case using ms m by simp
qed

lemma messages_at_flatten:
  assumes "messages_at data = Some msgs"
  shows "\<exists>h. get_chat_history data = Inr h \<and> flatten_chat_history h = Inr (map Inr msgs)"
proof -
  let ?p = "[''Direct Messages'', ''Chat History'', ''ChatHistory'']"
  from assms obtain x where x: "value_at data ?p = Some x"
    by (cases "value_at data ?p") (auto simp: messages_at_def)
  note g = value_at_get_in[OF x]
  show ?thesis
  proof (cases x)
    case JNull
    then have "msgs = []" using assms x by (simp add: messages_at_def)
    then show ?thesis using g JNull by (simp add: get_chat_history_def get_dict_def)
  next
    case (JObj threads)
    then obtain mss where
      "those (map (\<lambda>kv. case snd kv of JArr ms \<Rightarrow> Some ms | _ \<Rightarrow> None) threads) = Some mss"
      "msgs = concat mss"
      using assms x by (auto simp: messages_at_def)
    then show ?thesis using g JObj flatten_threads by (simp add: get_chat_history_def get_dict_def)
  qed (use assms x in \<open>simp_all add: messages_at_def\<close>)
qed

lemma count_from_total:
  "list_all (\<lambda>x. \<not> isl (getitem (snd x) ''From'')) xs \<Longrightarrow>
     count_from p xs = Inr (int (length (filter (\<lambda>x. p (sender_of (snd x))) xs)))"
proof (induction xs)
  case Nil
  then show ?case by simp
next
  case (Cons x xs)
  then obtain v where v: "getitem (snd x) ''From'' = Inr v"
    by (cases "getitem (snd x) ''From''") auto
  then have "sender_of (snd x) = v" by (simp add: sender_of_def)
  then show ?case using Cons v by simp
qed

lemma count_from_readable:
  "count_from p xs = Inr n \<Longrightarrow> list_all (\<lambda>x. \<not> isl (getitem (snd x) ''From'')) xs"
proof (induction xs arbitrary: n)
  case Nil
  then show ?case by simp
next
  case (Cons x xs)
  from Cons.prems obtain v where v: "getitem (snd x) ''From'' = Inr v"
    by (cases "getitem (snd x) ''From''") simp_all
  with Cons.prems obtain m where "count_from p xs = Inr m"
    by (cases "count_from p xs") simp_all
  from Cons.IH[OF this] show ?case using v by simp
qed

lemma filtered_count_datable:
  "filtered_count sp data path = Inr n \<Longrightarrow> items_at data path = Some items \<Longrightarrow> datable sp items"
  unfolding filtered_count_def try_bind_eq_Inr
  by (auto simp: items_at_get_list gdfi_collect datable_def)

subsection \<open>Session segmentation\<close>

lemma groups_nonempty: "xs \<noteq> [] \<Longrightarrow> groups xs \<noteq> []"
  by (induction xs rule: groups.induct) (auto split: list.splits)

lemma groups_hd_gen: "groups xs = g # gs \<Longrightarrow> g \<noteq> [] \<and> hd g = hd xs"
proof (induction xs arbitrary: g gs rule: groups.induct)
  case (3 x y r)
  then show ?case by (cases "groups (y # r)") (auto split: if_splits)
qed auto

lemma groups_hd: "groups (x # xs) = g # gs \<Longrightarrow> g \<noteq> [] \<and> hd g = x"
  using groups_hd_gen[of "x # xs" g gs] by simp

lemma groups_concat: "concat (groups xs) = xs"
proof (induction xs rule: groups.induct)
  case (3 x y r)
  then show ?case by (cases "y - x > 300"; cases "groups (y # r)") auto
qed simp_all

lemma groups_no_empty: "[] \<notin> set (groups xs)"
proof (induction xs rule: groups.induct)
  case (3 x y r)
  then show ?case by (cases "groups (y # r)") (auto split: if_splits)
qed simp_all

lemma within_gap_Cons: "g \<noteq> [] \<Longrightarrow> within_gap (x # g) = (hd g - x \<le> 300 \<and> within_gap g)"
  by (cases g) auto

lemma groups_within: "list_all within_gap (groups xs)"
proof (induction xs rule: groups.induct)
  case (3 x y r)
  show ?case
  proof (cases "groups (y # r)")
    case Nil
    then show ?thesis by simp
  next
    case (Cons g gs)
    from groups_hd[OF Cons] have g: "g \<noteq> []" "hd g = y" by simp_all
    show ?thesis using 3 Cons g by (auto simp: within_gap_Cons)
  qed
qed simp_all

lemma groups_separated: "separated (groups xs)"
proof (induction xs rule: groups.induct)
  case (3 x y r)
  show ?case
  proof (cases "groups (y # r)")
    case Nil
    then show ?thesis by simp
  next
    case (Cons g gs)
    from groups_hd[OF Cons] have g: "g \<noteq> []" "hd g = y" by simp_all
    show ?thesis
    proof (cases "y - x > 300")
      case True
      then show ?thesis using 3 Cons g by simp
    next
      case False
      have "separated ((x # g) # gs) = separated (g # gs)"
        using g by (cases gs) simp_all
      then show ?thesis using 3 Cons False by simp
    qed
  qed
qed simp_all

lemma sessions_loop_groups:
  "sessions_loop (zip (e # xs) xs) acc s e =
     acc @ (case groups (e # xs) of [] \<Rightarrow> [] | g # gs \<Rightarrow> (s, last g, last g - s) # map session_of gs)"
proof (induction xs arbitrary: acc s e)
  case Nil
  then show ?case by simp
next
  case (Cons y r)
  obtain g gs where G: "groups (y # r) = g # gs"
    using groups_nonempty[of "y # r"] by (cases "groups (y # r)") auto
  from groups_hd[OF G] have g: "g \<noteq> []" "hd g = y" by simp_all
  show ?case
  proof (cases "y - e > 300")
    case True
    then show ?thesis using Cons.IH[where acc="acc @ [(s, e, e - s)]" and s=y and e=y] G g
      by (simp add: session_of_def)
  next
    case False
    then show ?thesis using Cons.IH[where acc=acc and s=s and e=y] G g by simp
  qed
qed

lemma get_sessions_groups: "get_sessions ts = map session_of (groups (sort ts))"
proof (cases "sort ts")
  case Nil
  then show ?thesis by (simp add: get_sessions_def)
next
  case (Cons x xs)
  obtain g gs where G: "groups (x # xs) = g # gs"
    using groups_nonempty[of "x # xs"] by (cases "groups (x # xs)") auto
  from groups_hd[OF G] have g: "g \<noteq> []" "hd g = x" by simp_all
  show ?thesis
  proof (cases xs)
    case Nil
    then show ?thesis using Cons by (simp add: get_sessions_def session_of_def Let_def)
  next
    case (Cons y r)
    have "get_sessions ts = sessions_loop (zip (x # xs) xs) [] x x"
      using \<open>sort ts = x # xs\<close> Cons by (simp add: get_sessions_def Let_def)
    then show ?thesis using sessions_loop_groups[of x xs "[]" x] G g \<open>sort ts = x # xs\<close>
      by (simp add: session_of_def)
  qed
qed

lemma sorted_heads: "sorted (concat gs) \<Longrightarrow> [] \<notin> set gs \<Longrightarrow> sorted (map hd gs)"
proof (induction gs)
  case (Cons g gs)
  then have "sorted (map hd gs)" by (simp add: sorted_append)
  moreover have "\<forall>h \<in> set gs. hd g \<le> hd h"
  proof
    fix h assume h: "h \<in> set gs"
    with Cons.prems have "h \<noteq> []" by auto
    then have "hd h \<in> set h" by simp
    then have "hd h \<in> set (concat gs)" using h by auto
    moreover have "hd g \<in> set g" using Cons.prems by auto
    ultimately show "hd g \<le> hd h" using Cons.prems(1) by (auto simp: sorted_append)
  qed
  ultimately show ?case by simp
qed simp

lemma get_sessions_starts_sorted: "sorted (map fst (get_sessions ts))"
proof -
  have "map fst (get_sessions ts) = map hd (groups (sort ts))"
    by (simp add: get_sessions_groups session_of_def)
  moreover have "sorted (map hd (groups (sort ts)))"
    by (rule sorted_heads) (simp_all add: groups_concat groups_no_empty)
  ultimately show ?thesis by simp
qed

lemma get_sessions_nonempty: "ts \<noteq> [] \<Longrightarrow> get_sessions ts \<noteq> []"
proof -
  assume "ts \<noteq> []"
  then have "sort ts \<noteq> []" by (metis length_0_conv length_sort)
  then show ?thesis using groups_nonempty[of "sort ts"] by (simp add: get_sessions_groups)
qed

text \<open>
  Claim C5. \<open>get_sessions\<close> sorts its input and cuts the sorted instants into contiguous,
  non-empty groups: inside a group no two neighbours are more than five minutes (300
  seconds) apart, between the last instant of a group and the first of the next there
  are more than five minutes, and the sessions returned are the groups in that order,
  each as (first instant, last instant, last minus first); the session starts ascend.
  No instant gives no session, one instant gives one session of duration zero, and two
  inputs that are permutations of each other give the same sessions.
\<close>

theorem get_sessions_partition:
  "(\<exists>gs. concat gs = sort ts \<and> [] \<notin> set gs \<and> list_all within_gap gs \<and> separated gs
         \<and> get_sessions ts = map session_of gs)
   \<and> sorted (map fst (get_sessions ts))
   \<and> get_sessions [] = []
   \<and> get_sessions [t] = [(t, t, 0)]
   \<and> (mset ts' = mset ts \<longrightarrow> get_sessions ts' = get_sessions ts)"
proof -
  have "\<exists>gs. concat gs = sort ts \<and> [] \<notin> set gs \<and> list_all within_gap gs \<and> separated gs
         \<and> get_sessions ts = map session_of gs"
    using groups_concat[of "sort ts"] groups_no_empty[of "sort ts"] groups_within[of "sort ts"]
      groups_separated[of "sort ts"] get_sessions_groups[of ts] by blast
  moreover have "get_sessions [] = []" by (simp add: get_sessions_def)
  moreover have "get_sessions [t] = [(t, t, 0)]" by (simp add: get_sessions_def)
  moreover have "mset ts' = mset ts \<longrightarrow> get_sessions ts' = get_sessions ts"
  proof
    assume "mset ts' = mset ts"
    then have "sort ts' = sort ts" by (simp add: properties_for_sort)
    then show "get_sessions ts' = get_sessions ts" by (simp add: get_sessions_groups)
  qed
  ultimately show ?thesis using get_sessions_starts_sorted[of ts] by blast
qed

theorem get_sessions_partition_witness:
  "mset [400, 0, 1000, 100, 1301] = mset [1000, 0, 100, 1301, 400 :: int]
   \<and> get_sessions [400, 0, 1000, 100, 1301] = get_sessions [1000, 0, 100, 1301, 400]
   \<and> get_sessions [1000, 0, 100, 1301, 400] = [(0, 400, 400), (1000, 1000, 0), (1301, 1301, 0)]"
proof -
  have m: "mset [400, 0, 1000, 100, 1301] = mset [1000, 0, 100, 1301, 400 :: int]" by simp
  have e: "get_sessions [1000, 0, 100, 1301, 400] = [(0, 400, 400), (1000, 1000, 0), (1301, 1301, 0)]"
    by (simp add: get_sessions_def)
  show ?thesis
    using m e get_sessions_partition[of "[1000, 0, 100, 1301, 400]" 0 "[400, 0, 1000, 100, 1301]"]
    by blast
qed

subsection \<open>Counts of the tables\<close>

lemma bump_stats_total: "total_videos (bump_stats key likes stats) = total_videos stats + 1"
  by (induction key likes stats rule: bump_stats.induct) (auto simp: total_videos_def)

lemma bump_count_keys: "set (map fst (bump_count key cs)) = insert key (set (map fst cs))"
  by (induction key cs rule: bump_count.induct) auto

lemma bump_count_distinct: "distinct (map fst cs) \<Longrightarrow> distinct (map fst (bump_count key cs))"
proof (induction key cs rule: bump_count.induct)
  case (2 key k n item_count)
  then show ?case using bump_count_keys[of key item_count] by auto
qed simp

lemma bump_count_total: "sum_list (map snd (bump_count key cs)) = sum_list (map snd cs) + 1"
  by (induction key cs rule: bump_count.induct) auto

lemma count_at_present: "distinct (map fst cs) \<Longrightarrow> (k, n) \<in> set cs \<Longrightarrow> count_at cs k = n"
  by (simp add: count_at_def)

lemma count_at_absent: "k \<notin> fst ` set cs \<Longrightarrow> count_at cs k = 0"
proof -
  assume "k \<notin> fst ` set cs"
  then have "map_of cs k = None" by (simp add: map_of_eq_None_iff)
  then show ?thesis by (simp add: count_at_def)
qed

lemma count_at_sum:
  assumes "distinct (map fst cs)" and "distinct ks" and "fst ` set cs \<subseteq> set ks"
  shows "sum_list (map (count_at cs) ks) = sum_list (map snd cs)"
proof -
  have "sum_list (map (count_at cs) ks) = sum (count_at cs) (set ks)"
    using assms(2) by (simp add: sum_list_distinct_conv_sum_set)
  also have "\<dots> = sum (count_at cs) (fst ` set cs)"
    by (rule sum.mono_neutral_right) (use assms(3) count_at_absent in auto)
  also have "\<dots> = sum_list (map (count_at cs) (map fst cs))"
    using sum_list_distinct_conv_sum_set[OF assms(1), of "count_at cs"] by simp
  also have "\<dots> = sum_list (map snd cs)"
  proof -
    have "map (count_at cs) (map fst cs) = map snd cs"
      using count_at_present[OF assms(1)] by (auto simp: map_eq_conv)
    then show ?thesis by (rule arg_cong)
  qed
  finally show ?thesis .
qed

lemma number_at_count_cell: "number_at (Suc 0) [c, count_cell e n] = n"
  by (simp add: number_at_def count_cell_def)

lemma summary_returns:
  assumes u: "value_at data [''Profile'', ''Profile Information'', ''ProfileMap'', ''userName''] = Some user"
    and l: "value_at data [''Profile'', ''Profile Information'', ''ProfileMap'', ''likesReceived''] = Some likes"
    and i1: "items_at data [''Activity'', ''Follower List'', ''FansList''] = Some followers" "datable sp followers"
    and i2: "items_at data [''Activity'', ''Following List'', ''Following''] = Some following" "datable sp following"
    and i3: "items_at data [''Video'', ''Videos'', ''VideoList''] = Some posted" "datable sp posted"
    and i4: "items_at data [''Activity'', ''Like List'', ''ItemFavoriteList''] = Some liked" "datable sp liked"
    and i5: "items_at data [''Comment'', ''Comments'', ''CommentsList''] = Some commented" "datable sp commented"
    and i6: "items_at data [''Activity'', ''Video Browsing History'', ''VideoList''] = Some viewed" "datable sp viewed"
    and m: "messages_at data = Some msgs" "datable sp msgs"
    and s: "list_all (\<lambda>x. \<not> isl (getitem (snd x) ''From'')) (windowed sp msgs)"
  shows "extract_summary_data sp data =
     Inr (Some (ExtractionResult ''tiktok_summary'' ''Summary information''
       (summary_frame
          [(''Followers'', JNum (int (length (windowed sp followers)))),
           (''Following'', JNum (int (length (windowed sp following)))),
           (''Likes received'', if likes = JNull \<or> likes = JStr ''None'' then JNum 0 else likes),
           (''Videos posted'', JNum (int (length (windowed sp posted)))),
           (''Likes given'', JNum (int (length (windowed sp liked)))),
           (''Comments posted'', JNum (int (length (windowed sp commented)))),
           (''Messages sent'',
              JNum (int (length (filter (\<lambda>x. py_eq (sender_of (snd x)) user) (windowed sp msgs))))),
           (''Messages received'',
              JNum (int (length (filter (\<lambda>x. \<not> py_eq (sender_of (snd x)) user) (windowed sp msgs))))),
           (''Videos watched'', JNum (int (length (windowed sp viewed))))])))"
proof -
  from messages_at_flatten[OF m(1)] obtain h where
    h: "get_chat_history data = Inr h" "flatten_chat_history h = Inr (map Inr msgs)" by blast
  have un: "get_user_name data = Inr user"
    using value_at_get_in[OF u] by (simp add: get_user_name_def)
  have ln: "cast_number data [''Profile'', ''Profile Information'', ''ProfileMap'', ''likesReceived'']
      = Inr (if likes = JNull \<or> likes = JStr ''None'' then JNum 0 else likes)"
    using value_at_get_in[OF l] by (simp add: cast_number_def)
  have dm: "collect (get_date_filtered_items sp (map Inr msgs)) = Inr (windowed sp msgs)"
    by (simp add: gdfi_iterator[OF m(2)] collect_map_Inr)
  show ?thesis
    unfolding extract_summary_data_def un h try_bind_Inr dm ln
      count_from_total[OF s]
      filtered_count_items[OF i1] filtered_count_items[OF i2] filtered_count_items[OF i3]
      filtered_count_items[OF i4] filtered_count_items[OF i5] filtered_count_items[OF i6]
    by (rule refl)
qed

lemma summary_frame_counts:
  assumes "r = ExtractionResult i t (summary_frame
          [(''Followers'', JNum n1),
           (''Following'', JNum n2),
           (''Likes received'', v),
           (''Videos posted'', JNum n3),
           (''Likes given'', JNum n4),
           (''Comments posted'', JNum n5),
           (''Messages sent'', JNum n6),
           (''Messages received'', JNum n7),
           (''Videos watched'', JNum n8)])"
  shows "count_of r ''Followers'' = Some n1 \<and> count_of r ''Following'' = Some n2
       \<and> count_of r ''Videos posted'' = Some n3 \<and> count_of r ''Likes given'' = Some n4
       \<and> count_of r ''Comments posted'' = Some n5 \<and> count_of r ''Messages sent'' = Some n6
       \<and> count_of r ''Messages received'' = Some n7 \<and> count_of r ''Videos watched'' = Some n8"
  unfolding assms
  by (simp add: count_of_def ExtractionResult_def summary_frame_def Let_def number_at_count_cell)

lemma bump_stats_likes: "total_likes (bump_stats key likes stats) = total_likes stats + likes"
  by (induction key likes stats rule: bump_stats.induct) (auto simp: total_likes_def)

lemma bump_stats_nonempty: "bump_stats key likes stats \<noteq> []"
  by (cases stats) (auto split: if_splits)

lemma post_loop_run:
  "list_all (\<lambda>x. \<not> isl (likes_of (snd x))) xs \<Longrightarrow>
     \<exists>stats'. post_loop (map Inr xs) stats = Inr stats'
       \<and> total_videos stats' = total_videos stats + int (length xs)
       \<and> total_likes stats' = total_likes stats + (\<Sum>x\<leftarrow>xs. projr (likes_of (snd x)))
       \<and> (stats \<noteq> [] \<or> xs \<noteq> [] \<longrightarrow> stats' \<noteq> [])"
proof (induction xs arbitrary: stats)
  case Nil
  then show ?case by simp
next
  case (Cons x xs)
  obtain date video where x: "x = (date, video)" by (cases x)
  from Cons.prems x obtain n where n: "likes_of video = Inr n"
    by (cases "likes_of video") auto
  from Cons.prems have "list_all (\<lambda>x. \<not> isl (likes_of (snd x))) xs" by simp
  from Cons.IH[OF this, of "bump_stats (hourly_key date) n stats"] obtain stats' where
    "post_loop (map Inr xs) (bump_stats (hourly_key date) n stats) = Inr stats'"
    "total_videos stats' = total_videos (bump_stats (hourly_key date) n stats) + int (length xs)"
    "total_likes stats' = total_likes (bump_stats (hourly_key date) n stats) + (\<Sum>x\<leftarrow>xs. projr (likes_of (snd x)))"
    "stats' \<noteq> []"
    using bump_stats_nonempty by blast
  then show ?case using x n
    by (simp add: bump_stats_total bump_stats_likes likes_of_def[symmetric])
qed

lemma posts_frame_totals:
  "sum_list (map (number_at 2) (map (\<lambda>(key, videos, received).
       [Formatted f (g key), Timeslot (hour_of key), count_cell e videos, count_cell e received]) stats))
     = total_videos stats
   \<and> sum_list (map (number_at 3) (map (\<lambda>(key, videos, received).
       [Formatted f (g key), Timeslot (hour_of key), count_cell e videos, count_cell e received]) stats))
     = total_likes stats"
  by (induction stats) (auto simp: number_at_def count_cell_def total_videos_def total_likes_def numeral_3_eq_3 numeral_2_eq_2)

lemma video_posts_returns:
  assumes i: "items_at data [''Video'', ''Videos'', ''VideoList''] = Some posted"
    and d: "datable sp posted"
    and n: "windowed sp posted \<noteq> []"
    and k: "list_all (\<lambda>x. \<not> isl (likes_of (snd x))) (windowed sp posted)"
  shows "\<exists>r. extract_video_posts sp data = Inr (Some r) \<and> table_id r = ''tiktok_posts''
       \<and> sum_list (map (number_at 2) (data_frame r)) = int (length (windowed sp posted))
       \<and> sum_list (map (number_at 3) (data_frame r)) = (\<Sum>x\<leftarrow>windowed sp posted. projr (likes_of (snd x)))"
proof -
  from n have "posted \<noteq> []" by (auto simp: windowed_def)
  with items_at_get_in[OF i] have g: "get_in data [''Video'', ''Videos'', ''VideoList''] = Inr (JArr posted)"
    by auto
  from post_loop_run[OF k, of "[]"] n obtain stats where
    p: "post_loop (map Inr (windowed sp posted)) [] = Inr stats"
    and tv: "total_videos stats = int (length (windowed sp posted))"
    and tl: "total_likes stats = (\<Sum>x\<leftarrow>windowed sp posted. projr (likes_of (snd x)))"
    and ne: "stats \<noteq> []"
    by (auto simp: total_videos_def total_likes_def)
  let ?e = "list_all (\<lambda>(key, videos, received). int64 videos \<and> int64 received) stats"
  let ?rows = "map (\<lambda>(key, videos, received).
                   [Formatted ''%Y-%m-%d'' (key - key mod 86400), Timeslot (hour_of key),
                    count_cell ?e videos, count_cell ?e received]) stats"
  have "extract_video_posts sp data = Inr (Some (ExtractionResult ''tiktok_posts'' ''Video posts'' ?rows))"
    unfolding extract_video_posts_def g try_bind_Inr py_iter.simps gdfi_iterator[OF d] p
    using ne by (simp add: Let_def)
  moreover have "sum_list (map (number_at 2) ?rows) = total_videos stats"
    "sum_list (map (number_at 3) ?rows) = total_likes stats"
    using posts_frame_totals[of "''%Y-%m-%d''" "\<lambda>key. key - key mod 86400" ?e stats] by simp_all
  ultimately show ?thesis using tv tl by (simp add: ExtractionResult_def)
qed

lemma count_loop_run:
  "distinct (map fst cs) \<Longrightarrow>
     \<exists>cs'. count_loop (map Inr ts) f cs = Inr cs' \<and> distinct (map fst cs')
       \<and> sum_list (map snd cs') = sum_list (map snd cs) + int (length ts)
       \<and> (cs \<noteq> [] \<or> ts \<noteq> [] \<longrightarrow> cs' \<noteq> [])"
proof (induction ts arbitrary: cs)
  case Nil
  then show ?case by simp
next
  case (Cons t ts)
  have ne: "bump_count (f t) cs \<noteq> []" by (cases cs) (auto split: if_splits)
  from Cons.IH[OF bump_count_distinct[OF Cons.prems], of "f t"] obtain cs' where
    "count_loop (map Inr ts) f (bump_count (f t) cs) = Inr cs'" "distinct (map fst cs')"
    "sum_list (map snd cs') = sum_list (map snd (bump_count (f t) cs)) + int (length ts)"
    "cs' \<noteq> []"
    using ne by blast
  then show ?case by (simp add: bump_count_total)
qed

lemma get_count_run:
  "\<exists>cs. get_count_by_date_key (map Inr ts) f = Inr cs \<and> distinct (map fst cs)
     \<and> sum_list (map snd cs) = int (length ts) \<and> (ts \<noteq> [] \<longrightarrow> cs \<noteq> [])"
proof -
  from count_loop_run[of "[]" ts f] obtain cs0 where
    c: "count_loop (map Inr ts) f [] = Inr cs0" "distinct (map fst cs0)"
      "sum_list (map snd cs0) = int (length ts)" "ts \<noteq> [] \<longrightarrow> cs0 \<noteq> []"
    by auto
  let ?cs = "sort_key fst cs0"
  have m: "mset ?cs = mset cs0" by simp
  have "mset (map fst ?cs) = mset (map fst cs0)" using m by (metis mset_map)
  then have d: "distinct (map fst ?cs)" using c(2) by (metis distinct_count_atmost_1 set_mset_mset)
  have "mset (map snd ?cs) = mset (map snd cs0)" using m by (metis mset_map)
  then have s: "sum_list (map snd ?cs) = sum_list (map snd cs0)" by (metis sum_mset_sum_list)
  have n: "ts \<noteq> [] \<longrightarrow> ?cs \<noteq> []" using c(4) by (metis length_0_conv length_sort)
  show ?thesis using c(1,3) d s n by (simp add: get_count_by_date_key_def)
qed

lemma comments_and_likes_returns:
  assumes c: "items_at data [''Comment'', ''Comments'', ''CommentsList''] = Some commented" "datable sp commented"
    and l: "items_at data [''Activity'', ''Like List'', ''ItemFavoriteList''] = Some liked" "datable sp liked"
    and n: "windowed sp liked \<noteq> []"
  shows "\<exists>r. extract_comments_and_likes sp data = Inr (Some r) \<and> table_id r = ''tiktok_comments_and_likes''
       \<and> sum_list (map (number_at 2) (data_frame r)) = int (length (windowed sp commented))
       \<and> sum_list (map (number_at 3) (data_frame r)) = int (length (windowed sp liked))"
proof -
  from get_count_run[of "map fst (windowed sp commented)" hourly_key] obtain cc where
    cc: "get_count_by_date_key (map Inr (map fst (windowed sp commented))) hourly_key = Inr cc"
      "distinct (map fst cc)" "sum_list (map snd cc) = int (length (windowed sp commented))"
    by auto
  from get_count_run[of "map fst (windowed sp liked)" hourly_key] n obtain lc where
    lc: "get_count_by_date_key (map Inr (map fst (windowed sp liked))) hourly_key = Inr lc"
      "distinct (map fst lc)" "sum_list (map snd lc) = int (length (windowed sp liked))" "lc \<noteq> []"
    by auto
  let ?ks = "sort (remdups (map fst cc @ map fst lc))"
  let ?rows = "map (\<lambda>key. [Formatted ''%Y-%m-%d %H:00:00'' (hourly_key key), Timeslot (hour_of key),
                     Number (count_at cc key), Number (count_at lc key)]) ?ks"
  have e: "extract_comments_and_likes sp data =
      Inr (Some (ExtractionResult ''tiktok_comments_and_likes'' ''Comments and likes'' ?rows))"
    unfolding extract_comments_and_likes_def items_at_get_list[OF c(1)] items_at_get_list[OF l(1)]
      try_bind_Inr py_iter.simps gdfi_iterator[OF c(2)] gdfi_iterator[OF l(2)] get_all_first_map cc(1) lc(1)
    using lc(4) by simp
  have ks: "distinct ?ks" "fst ` set cc \<subseteq> set ?ks" "fst ` set lc \<subseteq> set ?ks" by auto
  have n2: "map (number_at 2) ?rows = map (count_at cc) ?ks" by (simp add: number_at_def)
  have n3: "map (number_at 3) ?rows = map (count_at lc) ?ks" by (simp add: number_at_def)
  have s2: "sum_list (map (number_at 2) ?rows) = int (length (windowed sp commented))"
    unfolding n2 using count_at_sum[OF cc(2) ks(1,2)] cc(3) by simp
  have s3: "sum_list (map (number_at 3) ?rows) = int (length (windowed sp liked))"
    unfolding n3 using count_at_sum[OF lc(2) ks(1,3)] lc(3) by simp
  let ?r = "ExtractionResult ''tiktok_comments_and_likes'' ''Comments and likes'' ?rows"
  have df: "data_frame ?r = ?rows" "table_id ?r = ''tiktok_comments_and_likes''"
    by (simp_all add: ExtractionResult_def)
  show ?thesis
  proof (rule exI[of _ ?r], intro conjI)
    show "extract_comments_and_likes sp data = Inr (Some ?r)" by (rule e)
    show "table_id ?r = ''tiktok_comments_and_likes''" by (rule df(2))
    show "sum_list (map (number_at 2) (data_frame ?r)) = int (length (windowed sp commented))"
      unfolding df(1) by (rule s2)
    show "sum_list (map (number_at 3) (data_frame ?r)) = int (length (windowed sp liked))"
      unfolding df(1) by (rule s3)
  qed
qed

lemma session_info_returns:
  assumes p: "items_at data [''Video'', ''Videos'', ''VideoList''] = Some posted" "datable sp posted"
    and v: "items_at data [''Activity'', ''Video Browsing History'', ''VideoList''] = Some viewed" "datable sp viewed"
    and c: "items_at data [''Comment'', ''Comments'', ''CommentsList''] = Some commented" "datable sp commented"
    and n: "windowed sp (posted @ viewed @ commented) \<noteq> []"
  shows "extract_session_info sp data =
     Inr (Some (ExtractionResult ''tiktok_session_info'' ''Session information''
       (map (\<lambda>(start, en, duration).
               [Formatted ''%Y-%m-%d %H:%M'' (start - start mod 60), Duration duration])
          (get_sessions (map fst (windowed sp (posted @ viewed @ commented)))))))"
proof -
  have it: "py_iter (JArr posted) @ py_iter (JArr viewed) @ py_iter (JArr commented)
      = map Inr (posted @ viewed @ commented)" by simp
  have d: "datable sp (posted @ viewed @ commented)"
    using p(2) v(2) c(2) by (simp add: datable_append)
  have ne: "get_sessions (map fst (windowed sp (posted @ viewed @ commented))) \<noteq> []"
    using n by (intro get_sessions_nonempty) simp
  show ?thesis
    unfolding extract_session_info_def items_at_get_list[OF p(1)] items_at_get_list[OF v(1)]
      items_at_get_list[OF c(1)] try_bind_Inr it gdfi_iterator[OF d] get_all_first_map collect_map_Inr
    using ne by simp
qed

subsection \<open>When the extractors return\<close>

lemma post_loop_stops: "isl (post_loop (map Inr pre @ [Inl e]) stats)"
proof (induction pre arbitrary: stats)
  case Nil
  then show ?case by simp
next
  case (Cons x pre)
  obtain date video where x: "x = (date, video)" by (cases x)
  show ?case using Cons.IH x
    by (cases "try_bind (getitem video ''Likes'') py_int") simp_all
qed

lemma count_loop_stops: "isl (count_loop (map Inr ts @ [Inl e]) f cs)"
  by (induction ts arbitrary: cs) simp_all

lemma get_all_first_stops:
  "get_all_first (map Inr pre @ [Inl e]) = map Inr (map fst pre) @ [Inl e]"
  by (simp add: get_all_first_def)

lemma post_loop_likes:
  "post_loop (map Inr xs) stats = Inr s \<Longrightarrow> list_all (\<lambda>x. \<not> isl (likes_of (snd x))) xs"
proof (induction xs arbitrary: stats)
  case Nil
  then show ?case by simp
next
  case (Cons x xs)
  obtain date video where x: "x = (date, video)" by (cases x)
  from Cons.prems x obtain n where n: "likes_of video = Inr n"
    by (cases "likes_of video") (simp_all add: likes_of_def)
  with Cons.prems x have "post_loop (map Inr xs) (bump_stats (hourly_key date) n stats) = Inr s"
    by (simp add: likes_of_def)
  from Cons.IH[OF this] show ?case using x n by simp
qed

lemma video_posts_only_if:
  assumes r: "extract_video_posts sp data = Inr (Some r)"
    and i: "items_at data [''Video'', ''Videos'', ''VideoList''] = Some posted"
  shows "datable sp posted \<and> windowed sp posted \<noteq> []
       \<and> list_all (\<lambda>x. \<not> isl (likes_of (snd x))) (windowed sp posted)"
proof -
  from items_at_get_in[OF i] r have g: "get_in data [''Video'', ''Videos'', ''VideoList''] = Inr (JArr posted)"
    by (auto simp: extract_video_posts_def)
  from r obtain stats where
    p: "post_loop (get_date_filtered_items sp (map Inr posted)) [] = Inr stats" and ne: "stats \<noteq> []"
    unfolding extract_video_posts_def g try_bind_Inr
    by (auto simp: try_bind_eq_Inr split: if_splits)
  have d: "datable sp posted"
  proof (rule ccontr)
    assume "\<not> datable sp posted"
    from gdfi_stops[OF this] obtain pre e where
      "get_date_filtered_items sp (map Inr posted) = map Inr pre @ [Inl e]" by blast
    with p post_loop_stops[of pre e "[]"] show False by simp
  qed
  from p have p': "post_loop (map Inr (windowed sp posted)) [] = Inr stats"
    by (simp add: gdfi_iterator[OF d])
  have "windowed sp posted \<noteq> []" using p' ne by auto
  then show ?thesis using d post_loop_likes[OF p'] by simp
qed

lemma get_count_datable:
  assumes "get_count_by_date_key (get_all_first (get_date_filtered_items sp (map Inr items))) f = Inr cs"
  shows "datable sp items"
proof (rule ccontr)
  assume "\<not> datable sp items"
  from gdfi_stops[OF this] obtain pre e where
    "get_date_filtered_items sp (map Inr items) = map Inr pre @ [Inl e]" by blast
  then have "get_all_first (get_date_filtered_items sp (map Inr items)) = map Inr (map fst pre) @ [Inl e]"
    by (simp only: get_all_first_stops)
  then have "isl (count_loop (get_all_first (get_date_filtered_items sp (map Inr items))) f [])"
    by (simp only: count_loop_stops)
  with assms show False
    by (cases "count_loop (get_all_first (get_date_filtered_items sp (map Inr items))) f []")
       (simp_all add: get_count_by_date_key_def)
qed

lemma comments_and_likes_only_if:
  assumes r: "extract_comments_and_likes sp data = Inr (Some r)"
    and c: "items_at data [''Comment'', ''Comments'', ''CommentsList''] = Some commented"
    and l: "items_at data [''Activity'', ''Like List'', ''ItemFavoriteList''] = Some liked"
  shows "datable sp commented \<and> datable sp liked \<and> windowed sp liked \<noteq> []"
proof -
  from r obtain cc lc where
    cc: "get_count_by_date_key (get_all_first (get_date_filtered_items sp (map Inr commented))) hourly_key = Inr cc"
    and lc: "get_count_by_date_key (get_all_first (get_date_filtered_items sp (map Inr liked))) hourly_key = Inr lc"
    and ne: "lc \<noteq> []"
    unfolding extract_comments_and_likes_def items_at_get_list[OF c] items_at_get_list[OF l]
      try_bind_Inr py_iter.simps
    by (auto simp: try_bind_eq_Inr split: if_splits)
  note d = get_count_datable[OF cc] get_count_datable[OF lc]
  have "windowed sp liked \<noteq> []"
  proof
    assume "windowed sp liked = []"
    from lc have "get_count_by_date_key (get_all_first (map Inr (windowed sp liked))) hourly_key = Inr lc"
      by (simp only: gdfi_iterator[OF d(2)])
    with \<open>windowed sp liked = []\<close> have "lc = []"
      by (simp add: get_all_first_def get_count_by_date_key_def)
    with ne show False by simp
  qed
  then show ?thesis using d by simp
qed

lemma session_info_only_if:
  assumes r: "extract_session_info sp data = Inr (Some r)"
    and p: "items_at data [''Video'', ''Videos'', ''VideoList''] = Some posted"
    and v: "items_at data [''Activity'', ''Video Browsing History'', ''VideoList''] = Some viewed"
    and c: "items_at data [''Comment'', ''Comments'', ''CommentsList''] = Some commented"
  shows "datable sp (posted @ viewed @ commented) \<and> windowed sp (posted @ viewed @ commented) \<noteq> []"
proof -
  have it: "py_iter (JArr posted) @ py_iter (JArr viewed) @ py_iter (JArr commented)
      = map Inr (posted @ viewed @ commented)" by simp
  from r obtain dates where
    ds: "collect (get_all_first (get_date_filtered_items sp (map Inr (posted @ viewed @ commented)))) = Inr dates"
    and ne: "get_sessions dates \<noteq> []"
    unfolding extract_session_info_def items_at_get_list[OF p] items_at_get_list[OF v]
      items_at_get_list[OF c] try_bind_Inr it
    by (auto simp: try_bind_eq_Inr split: if_splits)
  have d: "datable sp (posted @ viewed @ commented)"
  proof (rule ccontr)
    assume "\<not> datable sp (posted @ viewed @ commented)"
    from gdfi_stops[OF this] obtain pre e where
      "get_date_filtered_items sp (map Inr (posted @ viewed @ commented)) = map Inr pre @ [Inl e]" by blast
    then have "collect (get_all_first (get_date_filtered_items sp (map Inr (posted @ viewed @ commented)))) = Inl e"
      by (simp only: get_all_first_stops collect_stops)
    with ds show False by simp
  qed
  have "collect (get_all_first (get_date_filtered_items sp (map Inr (posted @ viewed @ commented))))
      = Inr (map fst (windowed sp (posted @ viewed @ commented)))"
    by (simp only: gdfi_iterator[OF d] get_all_first_map collect_map_Inr)
  with ds have "dates = map fst (windowed sp (posted @ viewed @ commented))" by simp
  with ne have "windowed sp (posted @ viewed @ commented) \<noteq> []"
    by (auto simp: get_sessions_def)
  then show ?thesis using d by simp
qed

lemma summary_only_if:
  assumes r: "extract_summary_data sp data = Inr x"
    and i1: "items_at data [''Activity'', ''Follower List'', ''FansList''] = Some followers"
    and i2: "items_at data [''Activity'', ''Following List'', ''Following''] = Some following"
    and i3: "items_at data [''Video'', ''Videos'', ''VideoList''] = Some posted"
    and i4: "items_at data [''Activity'', ''Like List'', ''ItemFavoriteList''] = Some liked"
    and i5: "items_at data [''Comment'', ''Comments'', ''CommentsList''] = Some commented"
    and i6: "items_at data [''Activity'', ''Video Browsing History'', ''VideoList''] = Some viewed"
    and m: "messages_at data = Some msgs"
  shows "datable sp followers \<and> datable sp following \<and> datable sp posted \<and> datable sp liked
       \<and> datable sp commented \<and> datable sp viewed \<and> datable sp msgs
       \<and> list_all (\<lambda>x. \<not> isl (getitem (snd x) ''From'')) (windowed sp msgs)"
proof -
  from messages_at_flatten[OF m] obtain h where
    h: "get_chat_history data = Inr h" "flatten_chat_history h = Inr (map Inr msgs)" by blast
  from r obtain user hh fl dm sent n1 n2 n3 n4 n5 n6 where
    "get_user_name data = Inr user"
    and hh: "get_chat_history data = Inr hh" "flatten_chat_history hh = Inr fl"
    and dm0: "collect (get_date_filtered_items sp fl) = Inr dm"
    and s: "count_from (\<lambda>sender. py_eq sender user) dm = Inr sent"
    and f: "filtered_count sp data [''Activity'', ''Follower List'', ''FansList''] = Inr n1"
      "filtered_count sp data [''Activity'', ''Following List'', ''Following''] = Inr n2"
      "filtered_count sp data [''Video'', ''Videos'', ''VideoList''] = Inr n3"
      "filtered_count sp data [''Activity'', ''Like List'', ''ItemFavoriteList''] = Inr n4"
      "filtered_count sp data [''Comment'', ''Comments'', ''CommentsList''] = Inr n5"
      "filtered_count sp data [''Activity'', ''Video Browsing History'', ''VideoList''] = Inr n6"
    unfolding extract_summary_data_def try_bind_eq_Inr
    by blast
  from hh h have "fl = map Inr msgs" by simp
  with dm0 have dm: "collect (get_date_filtered_items sp (map Inr msgs)) = Inr dm" by simp
  from dm have d: "datable sp msgs" "dm = windowed sp msgs"
    by (simp_all add: gdfi_collect datable_def)
  show ?thesis
    using filtered_count_datable[OF f(1) i1] filtered_count_datable[OF f(2) i2]
      filtered_count_datable[OF f(3) i3] filtered_count_datable[OF f(4) i4]
      filtered_count_datable[OF f(5) i5] filtered_count_datable[OF f(6) i6]
      d count_from_readable[OF s] by simp
qed

text \<open>
  Claim C1, as the code has it. Take a document whose profile can be read and whose
  sections hold lists (or are absent), and whose chat history holds lists of messages.
  The extractors that filter by time work from the items whose parsed \<^verbatim>\<open>Date\<close> lies in
  the closed window from 2021-01-01 00:00:00 to 2025-01-01 00:00:00, and from no other.

  The Summary returns its table when every item and message has a \<^verbatim>\<open>Date\<close> that parses and
  every message in the window has a sender; whenever it returns a table, each of its six
  section counts is the number of items of that section in the window, and its messages
  sent and received are the numbers of messages in the window that are, and are not,
  from the user. Video Posts returns a table when the dates of the posted videos parse,
  one video at least is in the window and the likes of the videos in the window read as
  integers; whenever it returns a table, its Videos column sums to the number of videos
  in the window and its Likes received column to the sum of their likes. Comments and
  Likes returns a table when the dates of comments and likes parse and one like at least
  is in the window; whenever it returns a table, its two count columns sum to the numbers
  of comments and of likes in the window. Session Info returns a table when the dates of
  posts, views and comments parse and one of them at least is in the window; whenever it
  returns a table, its rows are the sessions of the instants in the window.
\<close>

theorem time_filtered_extractors:
  assumes u: "value_at data [''Profile'', ''Profile Information'', ''ProfileMap'', ''userName''] = Some user"
    and l: "value_at data [''Profile'', ''Profile Information'', ''ProfileMap'', ''likesReceived''] = Some likes"
    and i1: "items_at data [''Activity'', ''Follower List'', ''FansList''] = Some followers"
    and i2: "items_at data [''Activity'', ''Following List'', ''Following''] = Some following"
    and i3: "items_at data [''Video'', ''Videos'', ''VideoList''] = Some posted"
    and i4: "items_at data [''Activity'', ''Like List'', ''ItemFavoriteList''] = Some liked"
    and i5: "items_at data [''Comment'', ''Comments'', ''CommentsList''] = Some commented"
    and i6: "items_at data [''Activity'', ''Video Browsing History'', ''VideoList''] = Some viewed"
    and m: "messages_at data = Some msgs"
  shows
    "(datable sp followers \<and> datable sp following \<and> datable sp posted \<and> datable sp liked
        \<and> datable sp commented \<and> datable sp viewed \<and> datable sp msgs
        \<and> list_all (\<lambda>x. \<not> isl (getitem (snd x) ''From'')) (windowed sp msgs)
      \<longrightarrow> (\<exists>r. extract_summary_data sp data = Inr (Some r)))
   \<and> (\<forall>r. extract_summary_data sp data = Inr (Some r) \<longrightarrow>
          count_of r ''Followers'' = Some (int (length (windowed sp followers)))
        \<and> count_of r ''Following'' = Some (int (length (windowed sp following)))
        \<and> count_of r ''Videos posted'' = Some (int (length (windowed sp posted)))
        \<and> count_of r ''Likes given'' = Some (int (length (windowed sp liked)))
        \<and> count_of r ''Comments posted'' = Some (int (length (windowed sp commented)))
        \<and> count_of r ''Messages sent'' =
            Some (int (length (filter (\<lambda>x. py_eq (sender_of (snd x)) user) (windowed sp msgs))))
        \<and> count_of r ''Messages received'' =
            Some (int (length (filter (\<lambda>x. \<not> py_eq (sender_of (snd x)) user) (windowed sp msgs))))
        \<and> count_of r ''Videos watched'' = Some (int (length (windowed sp viewed))))
   \<and> (datable sp posted \<and> windowed sp posted \<noteq> []
        \<and> list_all (\<lambda>x. \<not> isl (likes_of (snd x))) (windowed sp posted)
      \<longrightarrow> (\<exists>r. extract_video_posts sp data = Inr (Some r)))
   \<and> (\<forall>r. extract_video_posts sp data = Inr (Some r) \<longrightarrow>
          column_total 2 r = int (length (windowed sp posted))
        \<and> column_total 3 r = (\<Sum>x\<leftarrow>windowed sp posted. projr (likes_of (snd x))))
   \<and> (datable sp commented \<and> datable sp liked \<and> windowed sp liked \<noteq> []
      \<longrightarrow> (\<exists>r. extract_comments_and_likes sp data = Inr (Some r)))
   \<and> (\<forall>r. extract_comments_and_likes sp data = Inr (Some r) \<longrightarrow>
          column_total 2 r = int (length (windowed sp commented))
        \<and> column_total 3 r = int (length (windowed sp liked)))
   \<and> (datable sp posted \<and> datable sp viewed \<and> datable sp commented
        \<and> windowed sp (posted @ viewed @ commented) \<noteq> []
      \<longrightarrow> (\<exists>r. extract_session_info sp data = Inr (Some r)))
   \<and> (\<forall>r. extract_session_info sp data = Inr (Some r) \<longrightarrow>
          data_frame r =
            map (\<lambda>(start, en, duration).
                   [Formatted ''%Y-%m-%d %H:%M'' (start - start mod 60), Duration duration])
              (get_sessions (map fst (windowed sp (posted @ viewed @ commented)))))"
proof (intro conjI allI impI)
  assume a: "datable sp followers \<and> datable sp following \<and> datable sp posted \<and> datable sp liked
        \<and> datable sp commented \<and> datable sp viewed \<and> datable sp msgs
        \<and> list_all (\<lambda>x. \<not> isl (getitem (snd x) ''From'')) (windowed sp msgs)"
  then have "\<exists>t. extract_summary_data sp data = Inr (Some t)"
    using summary_returns[OF u l i1 _ i2 _ i3 _ i4 _ i5 _ i6 _ m] by blast
  then show "\<exists>r. extract_summary_data sp data = Inr (Some r)" .
next
  fix r
  assume r: "extract_summary_data sp data = Inr (Some r)"
  note d = summary_only_if[OF r i1 i2 i3 i4 i5 i6 m]
  from d have d1: "datable sp followers" and d2: "datable sp following" and d3: "datable sp posted"
    and d4: "datable sp liked" and d5: "datable sp commented" and d6: "datable sp viewed"
    and d7: "datable sp msgs"
    and d8: "list_all (\<lambda>x. \<not> isl (getitem (snd x) ''From'')) (windowed sp msgs)"
    by simp_all
  note e = summary_returns[OF u l i1 d1 i2 d2 i3 d3 i4 d4 i5 d5 i6 d6 m d7 d8]
  from r e have "r = ExtractionResult ''tiktok_summary'' ''Summary information''
       (summary_frame
          [(''Followers'', JNum (int (length (windowed sp followers)))),
           (''Following'', JNum (int (length (windowed sp following)))),
           (''Likes received'', if likes = JNull \<or> likes = JStr ''None'' then JNum 0 else likes),
           (''Videos posted'', JNum (int (length (windowed sp posted)))),
           (''Likes given'', JNum (int (length (windowed sp liked)))),
           (''Comments posted'', JNum (int (length (windowed sp commented)))),
           (''Messages sent'',
              JNum (int (length (filter (\<lambda>x. py_eq (sender_of (snd x)) user) (windowed sp msgs))))),
           (''Messages received'',
              JNum (int (length (filter (\<lambda>x. \<not> py_eq (sender_of (snd x)) user) (windowed sp msgs))))),
           (''Videos watched'', JNum (int (length (windowed sp viewed))))])"
    by simp
  note c = summary_frame_counts[OF this]
  from c show "count_of r ''Followers'' = Some (int (length (windowed sp followers)))" by simp
  from c show "count_of r ''Following'' = Some (int (length (windowed sp following)))" by simp
  from c show "count_of r ''Videos posted'' = Some (int (length (windowed sp posted)))" by simp
  from c show "count_of r ''Likes given'' = Some (int (length (windowed sp liked)))" by simp
  from c show "count_of r ''Comments posted'' = Some (int (length (windowed sp commented)))" by simp
  from c show "count_of r ''Messages sent'' =
            Some (int (length (filter (\<lambda>x. py_eq (sender_of (snd x)) user) (windowed sp msgs))))" by simp
  from c show "count_of r ''Messages received'' =
            Some (int (length (filter (\<lambda>x. \<not> py_eq (sender_of (snd x)) user) (windowed sp msgs))))" by simp
  from c show "count_of r ''Videos watched'' = Some (int (length (windowed sp viewed)))" by simp
next
  assume "datable sp posted \<and> windowed sp posted \<noteq> []
        \<and> list_all (\<lambda>x. \<not> isl (likes_of (snd x))) (windowed sp posted)"
  then show "\<exists>r. extract_video_posts sp data = Inr (Some r)"
    using video_posts_returns[OF i3, of sp] by blast
next
  fix r
  assume r: "extract_video_posts sp data = Inr (Some r)"
  from video_posts_only_if[OF r i3] video_posts_returns[OF i3, of sp] r
  have t: "sum_list (map (number_at 2) (data_frame r)) = int (length (windowed sp posted))
       \<and> sum_list (map (number_at 3) (data_frame r)) = (\<Sum>x\<leftarrow>windowed sp posted. projr (likes_of (snd x)))"
    by auto
  from t show "column_total 2 r = int (length (windowed sp posted))" by (simp add: column_total_def)
  from t show "column_total 3 r = (\<Sum>x\<leftarrow>windowed sp posted. projr (likes_of (snd x)))"
    by (simp add: column_total_def)
next
  assume "datable sp commented \<and> datable sp liked \<and> windowed sp liked \<noteq> []"
  then show "\<exists>r. extract_comments_and_likes sp data = Inr (Some r)"
    using comments_and_likes_returns[OF i5 _ i4, of sp] by blast
next
  fix r
  assume r: "extract_comments_and_likes sp data = Inr (Some r)"
  from comments_and_likes_only_if[OF r i5 i4] comments_and_likes_returns[OF i5 _ i4, of sp] r
  have t: "sum_list (map (number_at 2) (data_frame r)) = int (length (windowed sp commented))
       \<and> sum_list (map (number_at 3) (data_frame r)) = int (length (windowed sp liked))"
    by auto
  from t show "column_total 2 r = int (length (windowed sp commented))" by (simp add: column_total_def)
  from t show "column_total 3 r = int (length (windowed sp liked))" by (simp add: column_total_def)
next
  assume "datable sp posted \<and> datable sp viewed \<and> datable sp commented
        \<and> windowed sp (posted @ viewed @ commented) \<noteq> []"
  then show "\<exists>r. extract_session_info sp data = Inr (Some r)"
    using session_info_returns[OF i3 _ i6 _ i5, of sp] by blast
next
  fix r
  assume r: "extract_session_info sp data = Inr (Some r)"
  from session_info_only_if[OF r i3 i6 i5]
  have d: "datable sp posted" "datable sp viewed" "datable sp commented"
    "windowed sp (posted @ viewed @ commented) \<noteq> []"
    by (simp_all add: datable_append)
  from session_info_returns[OF i3 d(1) i6 d(2) i5 d(3) d(4)] r
  show "data_frame r =
            map (\<lambda>(start, en, duration).
                   [Formatted ''%Y-%m-%d %H:%M'' (start - start mod 60), Duration duration])
              (get_sessions (map fst (windowed sp (posted @ viewed @ commented))))"
    by (simp add: ExtractionResult_def)
qed

theorem time_filtered_extractors_witness:
  "value_at example_export [''Profile'', ''Profile Information'', ''ProfileMap'', ''userName'']
     = Some (JStr ''alice'')
   \<and> items_at example_export [''Activity'', ''Follower List'', ''FansList''] = Some []
   \<and> items_at example_export [''Activity'', ''Video Browsing History'', ''VideoList''] = Some example_viewed
   \<and> messages_at example_export = Some example_messages
   \<and> datable strptime_iso example_viewed \<and> datable strptime_iso example_messages
   \<and> windowed strptime_iso example_viewed = [(datetime 2022 5 1 10 0 0, example_viewed ! 1)]
   \<and> windowed strptime_iso example_messages = [(datetime 2022 1 1 9 1 0, example_messages ! 1)]
   \<and> (\<exists>r. extract_summary_data strptime_iso example_export = Inr (Some r)
          \<and> count_of r ''Followers'' = Some 0 \<and> count_of r ''Following'' = Some 0
          \<and> count_of r ''Videos posted'' = Some 1 \<and> count_of r ''Likes given'' = Some 1
          \<and> count_of r ''Comments posted'' = Some 1 \<and> count_of r ''Messages sent'' = Some 1
          \<and> count_of r ''Messages received'' = Some 0 \<and> count_of r ''Videos watched'' = Some 1)
   \<and> (\<exists>r. extract_video_posts strptime_iso example_export = Inr (Some r)
          \<and> column_total 2 r = 1 \<and> column_total 3 r = 3)
   \<and> (\<exists>r. extract_comments_and_likes strptime_iso example_export = Inr (Some r)
          \<and> column_total 2 r = 1 \<and> column_total 3 r = 1)
   \<and> (\<exists>r. extract_session_info strptime_iso example_export = Inr (Some r)
          \<and> data_frame r =
              [[Formatted ''%Y-%m-%d %H:%M'' (datetime 2022 5 1 10 0 0), Duration 240],
               [Formatted ''%Y-%m-%d %H:%M'' (datetime 2022 6 1 12 30 0), Duration 0]])"
proof -
  have u: "value_at example_export [''Profile'', ''Profile Information'', ''ProfileMap'', ''userName'']
      = Some (JStr ''alice'')" by code_simp
  have l: "value_at example_export [''Profile'', ''Profile Information'', ''ProfileMap'', ''likesReceived'']
      = Some (JStr ''10'')" by code_simp
  have i1: "items_at example_export [''Activity'', ''Follower List'', ''FansList''] = Some []" by code_simp
  have i2: "items_at example_export [''Activity'', ''Following List'', ''Following''] = Some []" by code_simp
  have i3: "items_at example_export [''Video'', ''Videos'', ''VideoList''] = Some example_posted" by code_simp
  have i4: "items_at example_export [''Activity'', ''Like List'', ''ItemFavoriteList''] = Some example_liked"
    by code_simp
  have i5: "items_at example_export [''Comment'', ''Comments'', ''CommentsList''] = Some example_commented"
    by code_simp
  have i6: "items_at example_export [''Activity'', ''Video Browsing History'', ''VideoList''] = Some example_viewed"
    by code_simp
  have m: "messages_at example_export = Some example_messages" by code_simp
  have d0: "datable strptime_iso []" by (simp add: datable_def)
  have d3: "datable strptime_iso example_posted" by code_simp
  have d4: "datable strptime_iso example_liked" by code_simp
  have d5: "datable strptime_iso example_commented" by code_simp
  have d6: "datable strptime_iso example_viewed" by code_simp
  have d7: "datable strptime_iso example_messages" by code_simp
  have w0: "windowed strptime_iso [] = []" by (simp add: windowed_def)
  have w3: "windowed strptime_iso example_posted = [(datetime 2022 6 1 12 30 0, example_posted ! 0)]"
    by code_simp
  have w4: "windowed strptime_iso example_liked = [(datetime 2022 5 1 10 2 0, example_liked ! 0)]"
    by code_simp
  have w5: "windowed strptime_iso example_commented = [(datetime 2022 5 1 10 4 0, example_commented ! 0)]"
    by code_simp
  have w6: "windowed strptime_iso example_viewed = [(datetime 2022 5 1 10 0 0, example_viewed ! 1)]"
    by code_simp
  have w7: "windowed strptime_iso example_messages = [(datetime 2022 1 1 9 1 0, example_messages ! 1)]"
    by code_simp
  have f: "list_all (\<lambda>x. \<not> isl (getitem (snd x) ''From'')) [(datetime 2022 1 1 9 1 0, example_messages ! 1)]"
    by code_simp
  have s1: "filter (\<lambda>x. py_eq (sender_of (snd x)) (JStr ''alice'')) [(datetime 2022 1 1 9 1 0, example_messages ! 1)]
      = [(datetime 2022 1 1 9 1 0, example_messages ! 1)]" by code_simp
  have s2: "filter (\<lambda>x. \<not> py_eq (sender_of (snd x)) (JStr ''alice'')) [(datetime 2022 1 1 9 1 0, example_messages ! 1)]
      = []" by code_simp
  have k: "list_all (\<lambda>x. \<not> isl (likes_of (snd x))) [(datetime 2022 6 1 12 30 0, example_posted ! 0)]"
    by code_simp
  have k3: "(\<Sum>x\<leftarrow>[(datetime 2022 6 1 12 30 0, example_posted ! 0)]. projr (likes_of (snd x))) = 3"
    by code_simp
  have ws: "windowed strptime_iso (example_posted @ example_viewed @ example_commented)
      = [(datetime 2022 6 1 12 30 0, example_posted ! 0), (datetime 2022 5 1 10 0 0, example_viewed ! 1),
         (datetime 2022 5 1 10 4 0, example_commented ! 0)]"
    by (simp only: windowed_append w3 w5 w6 append.simps)
  have gs: "map (\<lambda>(start, en, duration).
                   [Formatted ''%Y-%m-%d %H:%M'' (start - start mod 60), Duration duration])
              (get_sessions (map fst
                [(datetime 2022 6 1 12 30 0, example_posted ! 0), (datetime 2022 5 1 10 0 0, example_viewed ! 1),
                 (datetime 2022 5 1 10 4 0, example_commented ! 0)]))
      = [[Formatted ''%Y-%m-%d %H:%M'' (datetime 2022 5 1 10 0 0), Duration 240],
         [Formatted ''%Y-%m-%d %H:%M'' (datetime 2022 6 1 12 30 0), Duration 0]]"
    by code_simp
  note t = time_filtered_extractors[OF u l i1 i2 i3 i4 i5 i6 m, of strptime_iso,
      unfolded w0 w3 w4 w5 w6 w7 ws s1 s2 k3 gs]
  have p1: "\<exists>r. extract_summary_data strptime_iso example_export = Inr (Some r)"
    using t[THEN conjunct1] d0 d3 d4 d5 d6 d7 f by blast
  have p2: "\<exists>r. extract_video_posts strptime_iso example_export = Inr (Some r)"
    using t[THEN conjunct2, THEN conjunct2, THEN conjunct1] d3 k by blast
  have p3: "\<exists>r. extract_comments_and_likes strptime_iso example_export = Inr (Some r)"
    using t[THEN conjunct2, THEN conjunct2, THEN conjunct2, THEN conjunct2, THEN conjunct1] d4 d5 by blast
  have p4: "\<exists>r. extract_session_info strptime_iso example_export = Inr (Some r)"
    using t[THEN conjunct2, THEN conjunct2, THEN conjunct2, THEN conjunct2, THEN conjunct2,
        THEN conjunct2, THEN conjunct1] d3 d5 d6 by blast
  have q1: "\<exists>r. extract_summary_data strptime_iso example_export = Inr (Some r)
          \<and> count_of r ''Followers'' = Some 0 \<and> count_of r ''Following'' = Some 0
          \<and> count_of r ''Videos posted'' = Some 1 \<and> count_of r ''Likes given'' = Some 1
          \<and> count_of r ''Comments posted'' = Some 1 \<and> count_of r ''Messages sent'' = Some 1
          \<and> count_of r ''Messages received'' = Some 0 \<and> count_of r ''Videos watched'' = Some 1"
    using p1 t[THEN conjunct2, THEN conjunct1] by auto
  have q2: "\<exists>r. extract_video_posts strptime_iso example_export = Inr (Some r)
          \<and> column_total 2 r = 1 \<and> column_total 3 r = 3"
    using p2 t[THEN conjunct2, THEN conjunct2, THEN conjunct2, THEN conjunct1] by auto
  have q3: "\<exists>r. extract_comments_and_likes strptime_iso example_export = Inr (Some r)
          \<and> column_total 2 r = 1 \<and> column_total 3 r = 1"
    using p3 t[THEN conjunct2, THEN conjunct2, THEN conjunct2, THEN conjunct2, THEN conjunct2,
        THEN conjunct1] by auto
  have q4: "\<exists>r. extract_session_info strptime_iso example_export = Inr (Some r)
          \<and> data_frame r =
              [[Formatted ''%Y-%m-%d %H:%M'' (datetime 2022 5 1 10 0 0), Duration 240],
               [Formatted ''%Y-%m-%d %H:%M'' (datetime 2022 6 1 12 30 0), Duration 0]]"
    using p4 t[THEN conjunct2, THEN conjunct2, THEN conjunct2, THEN conjunct2, THEN conjunct2,
        THEN conjunct2, THEN conjunct2] by auto
  show ?thesis by (intro conjI u i1 i6 m d6 d7 w6 w7 q1 q2 q3 q4)
qed

text \<open>
  Claim C1 as stated fails. The first viewed video of the example is dated 2019-03-01,
  before the window opens, and has its row in the Videos Viewed table; the first message
  is dated 2019-01-01 and has its row in the Direct Messages table. And a viewed video
  dated 2025-01-01 00:00:00, which is not before the end of the window, is counted by
  the Summary.
\<close>

theorem unfiltered_tables_counterexample:
  "extract_videos_viewed strptime_iso example_export =
     Inr (Some (ExtractionResult ''tiktok_videos_viewed'' ''Video views''
       [[Found (JStr ''2019-03-01 10:00:00''), Timeslot 10, Found (JStr ''https://v/1'')],
        [Found (JStr ''2022-05-01 10:00:00''), Timeslot 10, Found (JStr ''https://v/2'')]]))
   \<and> strptime_iso ''2019-03-01 10:00:00'' = Inr (datetime 2019 3 1 10 0 0)
   \<and> datetime 2019 3 1 10 0 0 < filter_start
   \<and> extract_direct_messages strptime_iso example_export =
     Inr (Some (ExtractionResult ''tiktok_direct_messages'' ''Direct Message Activity''
       [[Number 2, Formatted ''%Y-%m-%d %H:%M'' (datetime 2019 1 1 9 0 0)],
        [Number 1, Formatted ''%Y-%m-%d %H:%M'' (datetime 2022 1 1 9 1 0)]]))
   \<and> datetime 2019 1 1 9 0 0 < filter_start
   \<and> items_at boundary_export [''Activity'', ''Video Browsing History'', ''VideoList''] = Some [boundary_item]
   \<and> item_date strptime_iso boundary_item = Inr (datetime 2025 1 1 0 0 0)
   \<and> \<not> datetime 2025 1 1 0 0 0 < filter_end
   \<and> extract_summary_data strptime_iso boundary_export =
       Inr (Some (ExtractionResult ''tiktok_summary'' ''Summary information''
         [[Text ''Followers'', Number 0],
          [Text ''Following'', Number 0],
          [Text ''Likes received'', Found (JStr ''10'')],
          [Text ''Videos posted'', Number 0],
          [Text ''Likes given'', Number 0],
          [Text ''Comments posted'', Number 0],
          [Text ''Messages sent'', Number 0],
          [Text ''Messages received'', Number 0],
          [Text ''Videos watched'', Number 1]]))"
proof (intro conjI)
  show "extract_videos_viewed strptime_iso example_export =
     Inr (Some (ExtractionResult ''tiktok_videos_viewed'' ''Video views''
       [[Found (JStr ''2019-03-01 10:00:00''), Timeslot 10, Found (JStr ''https://v/1'')],
        [Found (JStr ''2022-05-01 10:00:00''), Timeslot 10, Found (JStr ''https://v/2'')]]))"
    by code_simp
  show "strptime_iso ''2019-03-01 10:00:00'' = Inr (datetime 2019 3 1 10 0 0)" by code_simp
  show "datetime 2019 3 1 10 0 0 < filter_start" by code_simp
  show "extract_direct_messages strptime_iso example_export =
     Inr (Some (ExtractionResult ''tiktok_direct_messages'' ''Direct Message Activity''
       [[Number 2, Formatted ''%Y-%m-%d %H:%M'' (datetime 2019 1 1 9 0 0)],
        [Number 1, Formatted ''%Y-%m-%d %H:%M'' (datetime 2022 1 1 9 1 0)]]))"
    by code_simp
  show "datetime 2019 1 1 9 0 0 < filter_start" by code_simp
  show "items_at boundary_export [''Activity'', ''Video Browsing History'', ''VideoList''] = Some [boundary_item]"
    by code_simp
  show "item_date strptime_iso boundary_item = Inr (datetime 2025 1 1 0 0 0)" by code_simp
  show "\<not> datetime 2025 1 1 0 0 0 < filter_end" by code_simp
  show "extract_summary_data strptime_iso boundary_export =
       Inr (Some (ExtractionResult ''tiktok_summary'' ''Summary information''
         [[Text ''Followers'', Number 0],
          [Text ''Following'', Number 0],
          [Text ''Likes received'', Found (JStr ''10'')],
          [Text ''Videos posted'', Number 0],
          [Text ''Likes given'', Number 0],
          [Text ''Comments posted'', Number 0],
          [Text ''Messages sent'', Number 0],
          [Text ''Messages received'', Number 0],
          [Text ''Videos watched'', Number 1]]))"
    by code_simp
qed

subsection \<open>The anonymous identifier map\<close>

lemma first_seen_id_append: "k \<in> set ks \<Longrightarrow> first_seen_id (ks @ rest) k = first_seen_id ks k"
  by (simp add: first_seen_id_def takeWhile_append1)

lemma first_seen_id_new: "k \<notin> set ks \<Longrightarrow> first_seen_id (ks @ k # rest) k = 1 + int (card (set ks))"
proof -
  assume "k \<notin> set ks"
  then have "takeWhile (\<lambda>k'. k' \<noteq> k) (ks @ k # rest) = ks @ takeWhile (\<lambda>k'. k' \<noteq> k) (k # rest)"
    by (intro takeWhile_append2) auto
  then have "takeWhile (\<lambda>k'. k' \<noteq> k) (ks @ k # rest) = ks" by simp
  then show ?thesis by (simp add: first_seen_id_def)
qed

lemma first_seen_id_bij:
  "inj_on (first_seen_id ks) (set ks) \<and> first_seen_id ks ` set ks = {1..int (card (set ks))}"
proof (induction ks rule: rev_induct)
  case Nil
  then show ?case by simp
next
  case (snoc k ks)
  have old: "\<And>k'. k' \<in> set ks \<Longrightarrow> first_seen_id (ks @ [k]) k' = first_seen_id ks k'"
    by (simp add: first_seen_id_append)
  show ?case
  proof (cases "k \<in> set ks")
    case True
    then have s: "set (ks @ [k]) = set ks" by auto
    have "inj_on (first_seen_id (ks @ [k])) (set ks)"
      using snoc old by (simp add: inj_on_def)
    moreover have "first_seen_id (ks @ [k]) ` set ks = first_seen_id ks ` set ks"
      using old by auto
    ultimately show ?thesis using snoc s by simp
  next
    case False
    have new: "first_seen_id (ks @ [k]) k = 1 + int (card (set ks))"
      using first_seen_id_new[OF False, of "[]"] by simp
    have img: "first_seen_id (ks @ [k]) ` set ks = {1..int (card (set ks))}"
      using old snoc by auto
    have c: "card (set (ks @ [k])) = Suc (card (set ks))" using False by simp
    have "inj_on (first_seen_id (ks @ [k])) (insert k (set ks))"
    proof (rule inj_onI)
      fix a b assume a: "a \<in> insert k (set ks)" and b: "b \<in> insert k (set ks)"
        and e: "first_seen_id (ks @ [k]) a = first_seen_id (ks @ [k]) b"
      have r: "\<And>x. x \<in> set ks \<Longrightarrow> first_seen_id (ks @ [k]) x \<le> int (card (set ks))"
        using img by auto
      show "a = b"
      proof (cases "a = k"; cases "b = k")
        assume "a \<noteq> k" "b \<noteq> k"
        then have "a \<in> set ks" "b \<in> set ks" using a b by auto
        then show ?thesis using e old snoc by (auto simp: inj_on_def)
      next
        assume "a = k" "b \<noteq> k"
        then have "b \<in> set ks" using b by auto
        from r[OF this] show ?thesis using e new \<open>a = k\<close> by simp
      next
        assume "a \<noteq> k" "b = k"
        then have "a \<in> set ks" using a by auto
        from r[OF this] show ?thesis using e new \<open>b = k\<close> by simp
      qed simp
    qed
    moreover have "first_seen_id (ks @ [k]) ` insert k (set ks) = {1..int (card (set ks)) + 1}"
      using img new by (auto simp: image_insert)
    ultimately show ?thesis using c by simp
  qed
qed

lemma tracks_empty: "tracks \<lparr>ids = [], counter = 1\<rparr> []"
  by (simp add: tracks_def)

lemma anon_ids_step:
  assumes "tracks st ks" and "dict_key v = Inr k"
  shows "\<exists>st'. anon_ids st v = Inr (first_seen_id (ks @ [k]) k, st') \<and> tracks st' (ks @ [k])"
proof (cases "k \<in> set ks")
  case True
  then have m: "map_of (ids st) k = Some (first_seen_id ks k)" using assms(1) by (simp add: tracks_def)
  have s: "set (ks @ [k]) = set ks" using True by auto
  have "tracks st (ks @ [k])"
    using assms(1) True unfolding tracks_def s by (simp add: first_seen_id_append)
  then show ?thesis using m assms(2) True by (simp add: anon_ids_def first_seen_id_append)
next
  case False
  then have m: "map_of (ids st) k = None" using assms(1) by (simp add: tracks_def)
  have c: "counter st = 1 + int (card (set ks))" using assms(1) by (simp add: tracks_def)
  let ?st = "\<lparr>ids = ids st @ [(k, counter st)], counter = counter st + 1\<rparr>"
  have new: "first_seen_id (ks @ [k]) k = counter st"
    using first_seen_id_new[OF False, of "[]"] c by simp
  have "tracks ?st (ks @ [k])"
    unfolding tracks_def
  proof (intro conjI allI)
    show "counter ?st = 1 + int (card (set (ks @ [k])))" using c False by simp
  next
    fix k'
    show "map_of (ids ?st) k' = (if k' \<in> set (ks @ [k]) then Some (first_seen_id (ks @ [k]) k') else None)"
    proof (cases "k' \<in> set ks")
      case True
      then show ?thesis using assms(1) by (simp add: tracks_def first_seen_id_append map_add_def)
    next
      case False
      then have "map_of (ids st) k' = None" using assms(1) by (simp add: tracks_def)
      then show ?thesis using False new by (simp add: map_add_def)
    qed
  qed
  then show ?thesis using m assms(2) new by (simp add: anon_ids_def)
qed

lemma sender_step:
  assumes "try_bind (getitem item ''From'') (anon_ids st) = Inr (n, st')" and "tracks st ks"
  shows "n = first_seen_id (ks @ [sender_key item]) (sender_key item) \<and> tracks st' (ks @ [sender_key item])"
proof -
  from assms(1) obtain v where v: "getitem item ''From'' = Inr v" and a: "anon_ids st v = Inr (n, st')"
    by (auto simp: try_bind_eq_Inr)
  from a obtain k where k: "dict_key v = Inr k" by (auto simp: anon_ids_def try_bind_eq_Inr)
  have sk: "sender_key item = k" using v k by (simp add: sender_key_def)
  from anon_ids_step[OF assms(2) k] a show ?thesis using sk by auto
qed

lemma messages_loop_ids:
  "messages_loop sp it st table = Inr table' \<Longrightarrow> tracks st ks \<Longrightarrow>
     \<exists>ms. collect it = Inr ms \<and>
       map (number_at 0) table' =
         map (number_at 0) table @ map (\<lambda>m. first_seen_id (ks @ map sender_key ms) (sender_key m)) ms"
proof (induction sp it st table arbitrary: table' ks rule: messages_loop.induct)
  case (1 sp st table)
  then show ?case by simp
next
  case (2 sp e items st table)
  then show ?case by simp
next
  case (3 sp item items st table)
  from "3.prems" obtain n st' where a: "try_bind (getitem item ''From'') (anon_ids st) = Inr (n, st')"
    by (cases "try_bind (getitem item ''From'') (anon_ids st)") auto
  from "3.prems" a obtain sent where d: "item_date sp item = Inr sent"
    by (cases "item_date sp item") auto
  let ?row = "[Number n, Formatted ''%Y-%m-%d %H:%M'' (sent - sent mod 60)]"
  from "3.prems" a d have l: "messages_loop sp items st' (table @ [?row]) = Inr table'" by simp
  let ?k = "sender_key item"
  from sender_step[OF a "3.prems"(2)] have
    n: "n = first_seen_id (ks @ [?k]) ?k" and t: "tracks st' (ks @ [?k])" by simp_all
  from "3.IH"[OF a refl d l t] obtain ms where
    c: "collect items = Inr ms"
    and m: "map (number_at 0) table' = map (number_at 0) (table @ [?row])
        @ map (\<lambda>m. first_seen_id ((ks @ [?k]) @ map sender_key ms) (sender_key m)) ms"
    by blast
  have "n = first_seen_id ((ks @ [?k]) @ map sender_key ms) ?k"
    using n first_seen_id_append[of ?k "ks @ [?k]" "map sender_key ms"] by simp
  then have "map (number_at 0) table' = map (number_at 0) table
      @ map (\<lambda>m. first_seen_id (ks @ map sender_key (item # ms)) (sender_key m)) (item # ms)"
    using m by (simp add: number_at_def)
  then show ?case using c by simp
qed

lemma direct_messages_ids:
  assumes "extract_direct_messages sp data = Inr (Some r)"
  shows "\<exists>history user own it ms.
      get_in data [''Direct Messages'', ''Chat History'', ''ChatHistory''] = Inr history
    \<and> get_user_name data = Inr user \<and> dict_key user = Inr own
    \<and> flatten_chat_history history = Inr it \<and> collect it = Inr ms
    \<and> map (number_at 0) (data_frame r)
        = map (\<lambda>m. first_seen_id (own # map sender_key ms) (sender_key m)) ms"
proof -
  from assms obtain history user first it table where
    h: "get_in data [''Direct Messages'', ''Chat History'', ''ChatHistory''] = Inr history"
    and u: "get_user_name data = Inr user"
    and o: "anon_ids \<lparr>ids = [], counter = 1\<rparr> user = Inr first"
    and f: "flatten_chat_history history = Inr it"
    and l: "messages_loop sp it (snd first) [] = Inr table"
    and r: "r = ExtractionResult ''tiktok_direct_messages'' ''Direct Message Activity'' table"
    by (auto simp: extract_direct_messages_def try_bind_eq_Inr)
  from o obtain own where k: "dict_key user = Inr own" by (auto simp: anon_ids_def try_bind_eq_Inr)
  from anon_ids_step[OF tracks_empty k] o have t: "tracks (snd first) [own]" by auto
  from messages_loop_ids[OF l t] obtain ms where
    "collect it = Inr ms"
    "map (number_at 0) table = map (\<lambda>m. first_seen_id ([own] @ map sender_key ms) (sender_key m)) ms"
    by auto
  then show ?thesis using h u k f r by (simp add: ExtractionResult_def)
qed

text \<open>
  Claim C4. When the Direct Messages extractor returns its table, the identifiers of its
  rows are the first-seen numbering of the senders' keys, the donating user's own key
  placed before all messages: a message of the user has identifier 1 wherever it stands,
  two messages have the same identifier exactly when they have the same sender, and the
  identifiers handed out are the integers from 1 up to the number of distinct keys.
\<close>

theorem anon_ids_first_seen:
  assumes "extract_direct_messages sp data = Inr (Some r)"
  shows "\<exists>user own history it ms.
      get_user_name data = Inr user \<and> dict_key user = Inr own
    \<and> get_in data [''Direct Messages'', ''Chat History'', ''ChatHistory''] = Inr history
    \<and> flatten_chat_history history = Inr it \<and> collect it = Inr ms
    \<and> map (number_at 0) (data_frame r)
        = map (\<lambda>m. first_seen_id (own # map sender_key ms) (sender_key m)) ms
    \<and> (\<forall>m \<in> set ms. sender_key m = own \<longrightarrow>
          first_seen_id (own # map sender_key ms) (sender_key m) = 1)
    \<and> (\<forall>m \<in> set ms. \<forall>m' \<in> set ms.
          (first_seen_id (own # map sender_key ms) (sender_key m)
             = first_seen_id (own # map sender_key ms) (sender_key m'))
          = (sender_key m = sender_key m'))
    \<and> first_seen_id (own # map sender_key ms) ` set (own # map sender_key ms)
        = {1..int (card (set (own # map sender_key ms)))}"
proof -
  from direct_messages_ids[OF assms] obtain history user own it ms where
    o: "get_in data [''Direct Messages'', ''Chat History'', ''ChatHistory''] = Inr history"
      "get_user_name data = Inr user" "dict_key user = Inr own"
      "flatten_chat_history history = Inr it" "collect it = Inr ms"
      "map (number_at 0) (data_frame r)
        = map (\<lambda>m. first_seen_id (own # map sender_key ms) (sender_key m)) ms"
    by blast
  let ?keys = "own # map sender_key ms"
  have one: "first_seen_id ?keys own = 1" by (simp add: first_seen_id_def)
  have inj: "inj_on (first_seen_id ?keys) (set ?keys)"
    and img: "first_seen_id ?keys ` set ?keys = {1..int (card (set ?keys))}"
    using first_seen_id_bij[of ?keys] by simp_all
  have same: "\<forall>m \<in> set ms. \<forall>m' \<in> set ms.
      (first_seen_id ?keys (sender_key m) = first_seen_id ?keys (sender_key m'))
      = (sender_key m = sender_key m')"
  proof (intro ballI)
    fix m m' assume "m \<in> set ms" "m' \<in> set ms"
    then have "sender_key m \<in> set ?keys" "sender_key m' \<in> set ?keys" by simp_all
    then show "(first_seen_id ?keys (sender_key m) = first_seen_id ?keys (sender_key m'))
      = (sender_key m = sender_key m')"
      using inj by (simp only: inj_on_eq_iff)
  qed
  have own1: "\<forall>m \<in> set ms. sender_key m = own \<longrightarrow> first_seen_id ?keys (sender_key m) = 1"
    using one by simp
  show ?thesis
    using o own1 same img by blast
qed

theorem anon_ids_first_seen_witness:
  "extract_direct_messages strptime_iso example_export = Inr (Some example_messages_table)
   \<and> map sender_key example_messages = [JStr ''bob'', JStr ''alice'']
   \<and> map (number_at 0) (data_frame example_messages_table)
       = map (\<lambda>m. first_seen_id (JStr ''alice'' # map sender_key example_messages) (sender_key m))
           example_messages
   \<and> map (number_at 0) (data_frame example_messages_table) = [2, 1]"
proof -
  have h: "extract_direct_messages strptime_iso example_export = Inr (Some example_messages_table)"
    by code_simp
  have u: "get_user_name example_export = Inr (JStr ''alice'')" by code_simp
  have g: "get_in example_export [''Direct Messages'', ''Chat History'', ''ChatHistory'']
      = Inr (JObj [(''Chat History with bob:'', JArr example_messages)])" by code_simp
  have c: "collect (map Inr example_messages) = Inr example_messages" by code_simp
  have s: "map sender_key example_messages = [JStr ''bob'', JStr ''alice'']" by code_simp
  have n: "map (number_at 0) (data_frame example_messages_table) = [2, 1]" by code_simp
  from anon_ids_first_seen[OF h] obtain user own history it ms where
    o: "get_user_name example_export = Inr user" "dict_key user = Inr own"
      "get_in example_export [''Direct Messages'', ''Chat History'', ''ChatHistory''] = Inr history"
      "flatten_chat_history history = Inr it" "collect it = Inr ms"
      "map (number_at 0) (data_frame example_messages_table)
        = map (\<lambda>m. first_seen_id (own # map sender_key ms) (sender_key m)) ms"
    by blast
  from o(1) u have "user = JStr ''alice''" by simp
  with o(2) have own: "own = JStr ''alice''" by simp
  from o(3,4) g have "it = map Inr example_messages" by simp
  with o(5) c have ms: "ms = example_messages" by simp
  show ?thesis using h s n o(6) own ms by simp
qed

subsection \<open>The orchestrator\<close>

lemma summary_id:
  "extract_summary_data sp data = Inr r \<Longrightarrow> \<exists>t. r = Some t \<and> table_id t = ''tiktok_summary''"
  unfolding extract_summary_data_def try_bind_eq_Inr
  by (auto simp: ExtractionResult_def)

lemma video_posts_id: "extract_video_posts sp data = Inr (Some t) \<Longrightarrow> table_id t = ''tiktok_posts''"
  unfolding extract_video_posts_def try_bind_eq_Inr
  by (auto simp: ExtractionResult_def try_bind_eq_Inr Let_def split: if_splits)

lemma comments_and_likes_id:
  "extract_comments_and_likes sp data = Inr (Some t) \<Longrightarrow> table_id t = ''tiktok_comments_and_likes''"
  unfolding extract_comments_and_likes_def try_bind_eq_Inr
  by (auto simp: ExtractionResult_def split: if_splits)

lemma videos_viewed_id:
  "extract_videos_viewed sp data = Inr (Some t) \<Longrightarrow> table_id t = ''tiktok_videos_viewed''"
  unfolding extract_videos_viewed_def try_bind_eq_Inr
  by (auto simp: ExtractionResult_def split: if_splits)

lemma session_info_id:
  "extract_session_info sp data = Inr (Some t) \<Longrightarrow> table_id t = ''tiktok_session_info''"
  unfolding extract_session_info_def try_bind_eq_Inr
  by (auto simp: ExtractionResult_def split: if_splits)

lemma direct_messages_id:
  "extract_direct_messages sp data = Inr (Some t) \<Longrightarrow> table_id t = ''tiktok_direct_messages''"
  unfolding extract_direct_messages_def try_bind_eq_Inr
  by (auto simp: ExtractionResult_def)

lemma run_extractors_produced:
  "run_extractors exs data = Inr tables \<Longrightarrow> tables = List.map_filter (produced data) exs"
proof (induction exs arbitrary: tables)
  case Nil
  then show ?case by (simp add: List.map_filter_simps)
next
  case (Cons ex exs)
  from Cons.prems obtain table where t: "ex data = Inr table" by (cases "ex data") auto
  with Cons.prems obtain rest where r: "run_extractors exs data = Inr rest"
    and ts: "tables = (case table of None \<Rightarrow> rest | Some t \<Rightarrow> t # rest)"
    by (cases "run_extractors exs data") auto
  from Cons.IH[OF r] show ?case using t ts
    by (cases table) (simp_all add: List.map_filter_simps produced_def)
qed

lemma run_extractors_all_ran:
  "run_extractors exs data = Inr tables \<Longrightarrow> list_all (ran data) exs"
proof (induction exs arbitrary: tables)
  case Nil
  then show ?case by simp
next
  case (Cons ex exs)
  from Cons.prems obtain table where t: "ex data = Inr table" by (cases "ex data") auto
  with Cons.prems obtain rest where "run_extractors exs data = Inr rest"
    by (cases "run_extractors exs data") auto
  from Cons.IH[OF this] show ?case using t by (simp add: ran_def)
qed

lemma run_extractors_run:
  "list_all (ran data) exs \<Longrightarrow> run_extractors exs data = Inr (List.map_filter (produced data) exs)"
proof (induction exs)
  case Nil
  then show ?case by (simp add: List.map_filter_simps)
next
  case (Cons ex exs)
  then obtain table where t: "ex data = Inr table" by (cases "ex data") (auto simp: ran_def)
  then have p: "produced data ex = table" by (simp add: produced_def)
  from Cons have "run_extractors exs data = Inr (List.map_filter (produced data) exs)" by simp
  then show ?case using t p by (cases table) (simp_all add: List.map_filter_simps)
qed

lemma run_extractors_raises:
  "list_all (ran data) before \<Longrightarrow> ex data = Inl e \<Longrightarrow> run_extractors (before @ ex # rest) data = Inl e"
proof (induction before)
  case Nil
  then show ?case by simp
next
  case (Cons b before)
  then obtain table where t: "b data = Inr table" by (cases "b data") (auto simp: ran_def)
  from Cons have "run_extractors (before @ ex # rest) data = Inl e" by simp
  then show ?case using t by simp
qed

lemma produced_subseq:
  "list_all2 (\<lambda>ex i. \<forall>t. produced data ex = Some t \<longrightarrow> table_id t = i) exs names \<Longrightarrow>
     subseq (map table_id (List.map_filter (produced data) exs)) names"
proof (induction exs names rule: list_all2_induct)
  case Nil
  then show ?case by (simp add: List.map_filter_simps)
next
  case (Cons ex i exs names)
  then show ?case by (cases "produced data ex") (auto simp: List.map_filter_simps)
qed

lemma extractors_names:
  "list_all2 (\<lambda>ex i. \<forall>t. produced data ex = Some t \<longrightarrow> table_id t = i) (extractors sp) extraction_order"
  unfolding extractors_def extraction_order_def produced_def
  using summary_id[of sp data] video_posts_id[of sp data] comments_and_likes_id[of sp data]
    videos_viewed_id[of sp data] session_info_id[of sp data] direct_messages_id[of sp data]
  by (auto split: sum.splits)

lemma extract_tiktok_data_yielded:
  "get_json_data_from_file f = Inr (data # others) \<Longrightarrow>
     extract_tiktok_data sp f = map_sum (\<lambda>e. e) Some (run_extractors (extractors sp) data)"
  by (cases "run_extractors (extractors sp) data") (simp_all add: extract_tiktok_data_def)

text \<open>The orchestrator answers \<^verbatim>\<open>None\<close> exactly when the reader yields no document.\<close>

lemma extract_tiktok_data_none:
  "(extract_tiktok_data sp f = Inr None) = (get_json_data_from_file f = Inr [])"
proof (cases "get_json_data_from_file f")
  case (Inl e)
  then show ?thesis by (simp add: extract_tiktok_data_def)
next
  case (Inr ds)
  then show ?thesis
    by (cases ds) (auto simp: extract_tiktok_data_def try_bind_eq_Inr)
qed

text \<open>
  Claim C7, as the code has it. For a document the reader yields, the orchestrator goes
  through the list \<open>extractors\<close>: Summary, Video Posts, Comments and Likes, Videos Viewed,
  Session Info, Direct Messages, each giving, when it gives a table, the table of its
  name. When every extractor returns, the orchestrator returns the tables given, in that
  order, the answers \<^verbatim>\<open>None\<close> left out. When an extractor raises after those before it in
  the list have returned, the orchestrator raises that exception, whatever the extractors
  after it would do. So the orchestrator returns only when every extractor has returned,
  and the names of the tables it returns follow the order of the list.
\<close>

theorem extractors_run_in_code_order:
  assumes "get_json_data_from_file f = Inr (data # others)"
  shows "extractors sp =
           [extract_summary_data sp, extract_video_posts sp, extract_comments_and_likes sp,
            extract_videos_viewed sp, extract_session_info sp, extract_direct_messages sp]
       \<and> list_all2 (\<lambda>ex i. \<forall>t. produced data ex = Some t \<longrightarrow> table_id t = i)
           (extractors sp) extraction_order
       \<and> (list_all (ran data) (extractors sp) \<longrightarrow>
            extract_tiktok_data sp f = Inr (Some (List.map_filter (produced data) (extractors sp))))
       \<and> (\<forall>before ex rest e.
            extractors sp = before @ ex # rest \<and> list_all (ran data) before \<and> ex data = Inl e
              \<longrightarrow> extract_tiktok_data sp f = Inl e)
       \<and> (\<forall>r. extract_tiktok_data sp f = Inr r \<longrightarrow>
            list_all (ran data) (extractors sp)
            \<and> r = Some (List.map_filter (produced data) (extractors sp)))
       \<and> subseq (map table_id (List.map_filter (produced data) (extractors sp))) extraction_order"
proof (intro conjI allI impI)
  show "extractors sp =
           [extract_summary_data sp, extract_video_posts sp, extract_comments_and_likes sp,
            extract_videos_viewed sp, extract_session_info sp, extract_direct_messages sp]"
    by (rule extractors_def)
  show "list_all2 (\<lambda>ex i. \<forall>t. produced data ex = Some t \<longrightarrow> table_id t = i)
           (extractors sp) extraction_order"
    by (rule extractors_names)
  show "subseq (map table_id (List.map_filter (produced data) (extractors sp))) extraction_order"
    by (rule produced_subseq) (rule extractors_names)
next
  assume "list_all (ran data) (extractors sp)"
  from run_extractors_run[OF this]
  show "extract_tiktok_data sp f = Inr (Some (List.map_filter (produced data) (extractors sp)))"
    by (simp add: extract_tiktok_data_yielded[OF assms])
next
  fix before ex rest e
  assume a: "extractors sp = before @ ex # rest \<and> list_all (ran data) before \<and> ex data = Inl e"
  then have "run_extractors (extractors sp) data = Inl e"
    using run_extractors_raises[of data before ex e rest] by simp
  then show "extract_tiktok_data sp f = Inl e"
    by (simp add: extract_tiktok_data_yielded[OF assms])
next
  fix r
  assume "extract_tiktok_data sp f = Inr r"
  then obtain tables where t: "run_extractors (extractors sp) data = Inr tables" and r: "r = Some tables"
    unfolding extract_tiktok_data_yielded[OF assms]
    by (cases "run_extractors (extractors sp) data") auto
  show "list_all (ran data) (extractors sp)" by (rule run_extractors_all_ran[OF t])
  show "r = Some (List.map_filter (produced data) (extractors sp))"
    using run_extractors_produced[OF t] r by simp
qed

theorem extractors_run_in_code_order_witness:
  "get_json_data_from_file no_posts_file = Inr [no_posts_export]
   \<and> list_all (ran no_posts_export) (extractors strptime_iso)
   \<and> extract_video_posts strptime_iso no_posts_export = Inr None
   \<and> extract_tiktok_data strptime_iso no_posts_file = Inr (Some no_posts_tables)
   \<and> map table_id no_posts_tables =
       [''tiktok_summary'', ''tiktok_comments_and_likes'', ''tiktok_videos_viewed'',
        ''tiktok_session_info'', ''tiktok_direct_messages'']
   \<and> get_json_data_from_file no_messages_file = Inr [no_messages_export]
   \<and> list_all (ran no_messages_export)
       [extract_summary_data strptime_iso, extract_video_posts strptime_iso,
        extract_comments_and_likes strptime_iso, extract_videos_viewed strptime_iso,
        extract_session_info strptime_iso]
   \<and> extract_direct_messages strptime_iso no_messages_export = Inl AttributeError
   \<and> extract_tiktok_data strptime_iso no_messages_file = Inl AttributeError"
proof -
  have g: "get_json_data_from_file no_posts_file = Inr [no_posts_export]" by code_simp
  have a: "list_all (ran no_posts_export) (extractors strptime_iso)" by code_simp
  have n: "extract_video_posts strptime_iso no_posts_export = Inr None" by code_simp
  have m: "List.map_filter (produced no_posts_export) (extractors strptime_iso) = no_posts_tables"
    by code_simp
  have i: "map table_id no_posts_tables =
       [''tiktok_summary'', ''tiktok_comments_and_likes'', ''tiktok_videos_viewed'',
        ''tiktok_session_info'', ''tiktok_direct_messages'']" by code_simp
  have g': "get_json_data_from_file no_messages_file = Inr [no_messages_export]" by code_simp
  have a': "list_all (ran no_messages_export)
       [extract_summary_data strptime_iso, extract_video_posts strptime_iso,
        extract_comments_and_likes strptime_iso, extract_videos_viewed strptime_iso,
        extract_session_info strptime_iso]" by code_simp
  have d: "extract_direct_messages strptime_iso no_messages_export = Inl AttributeError" by code_simp
  have s: "extractors strptime_iso =
       [extract_summary_data strptime_iso, extract_video_posts strptime_iso,
        extract_comments_and_likes strptime_iso, extract_videos_viewed strptime_iso,
        extract_session_info strptime_iso] @ extract_direct_messages strptime_iso # []"
    by (simp add: extractors_def)
  note c = extractors_run_in_code_order[OF g, of strptime_iso]
  note c' = extractors_run_in_code_order[OF g', of strptime_iso]
  have r: "extract_tiktok_data strptime_iso no_posts_file = Inr (Some no_posts_tables)"
    using c[THEN conjunct2, THEN conjunct2, THEN conjunct1, rule_format, OF a] unfolding m .
  have r': "extract_tiktok_data strptime_iso no_messages_file = Inl AttributeError"
    by (rule c'[THEN conjunct2, THEN conjunct2, THEN conjunct2, THEN conjunct1, rule_format,
          OF conjI[OF s conjI[OF a' d]]])
  show ?thesis by (intro conjI g a n r i g' a' d r')
qed

text \<open>
  Claim C7 as stated fails: on the example every extractor gives a table, and Videos
  Viewed comes fourth, after Video Posts and Comments and Likes, not second.
\<close>

theorem extraction_order_counterexample:
  "extract_tiktok_data strptime_iso example_file = Inr (Some example_tables)
   \<and> map table_id example_tables =
       [''tiktok_summary'', ''tiktok_posts'', ''tiktok_comments_and_likes'',
        ''tiktok_videos_viewed'', ''tiktok_session_info'', ''tiktok_direct_messages'']
   \<and> map table_id example_tables \<noteq>
       [''tiktok_summary'', ''tiktok_videos_viewed'', ''tiktok_posts'',
        ''tiktok_comments_and_likes'', ''tiktok_session_info'', ''tiktok_direct_messages'']"
  by code_simp

text \<open>
  Claim C10, the code at the failing inputs. A file holding nothing but the profile is
  validated and yielded by the reader. The Summary gives its table with every filtered
  count zero, Video Posts and Comments and Likes answer \<^verbatim>\<open>None\<close>, and Videos Viewed, on its
  empty browsing list, raises \<open>AttributeError\<close>: the orchestrator returns no list, and the
  flow is left by the exception right after the file prompt. On the example without its
  Direct Messages section the first five extractors give their tables and Direct Messages
  raises \<open>AttributeError\<close>, with the same outcome.
\<close>

theorem validated_document_raises:
  "get_json_data_from_file minimal_file = Inr [minimal_export]
   \<and> extract_summary_data strptime_iso minimal_export =
       Inr (Some (ExtractionResult ''tiktok_summary'' ''Summary information''
         [[Text ''Followers'', Number 0],
          [Text ''Following'', Number 0],
          [Text ''Likes received'', Found (JStr ''10'')],
          [Text ''Videos posted'', Number 0],
          [Text ''Likes given'', Number 0],
          [Text ''Comments posted'', Number 0],
          [Text ''Messages sent'', Number 0],
          [Text ''Messages received'', Number 0],
          [Text ''Videos watched'', Number 0]]))
   \<and> extract_video_posts strptime_iso minimal_export = Inr None
   \<and> extract_comments_and_likes strptime_iso minimal_export = Inr None
   \<and> extract_videos_viewed strptime_iso minimal_export = Inl AttributeError
   \<and> extract_tiktok_data strptime_iso minimal_file = Inl AttributeError
   \<and> process (example_processor minimal_file) [] [PayloadString ''export.json'']
     = \<lparr>commands =
          [CommandUIRender ''TikTok'' (PromptFileInput ''application/zip, text/plain, application/json'') 0],
        meta_data = [(''debug'', ''TikTok: extracting file'')],
        status = Raised AttributeError\<rparr>
   \<and> get_json_data_from_file no_messages_file = Inr [no_messages_export]
   \<and> map (\<lambda>ex. map_option table_id (produced no_messages_export ex))
       [extract_summary_data strptime_iso, extract_video_posts strptime_iso,
        extract_comments_and_likes strptime_iso, extract_videos_viewed strptime_iso,
        extract_session_info strptime_iso]
     = [Some ''tiktok_summary'', Some ''tiktok_posts'', Some ''tiktok_comments_and_likes'',
        Some ''tiktok_videos_viewed'', Some ''tiktok_session_info'']
   \<and> extract_direct_messages strptime_iso no_messages_export = Inl AttributeError
   \<and> extract_tiktok_data strptime_iso no_messages_file = Inl AttributeError"
proof (intro conjI)
  show "get_json_data_from_file minimal_file = Inr [minimal_export]" by code_simp
  show "extract_summary_data strptime_iso minimal_export =
       Inr (Some (ExtractionResult ''tiktok_summary'' ''Summary information''
         [[Text ''Followers'', Number 0],
          [Text ''Following'', Number 0],
          [Text ''Likes received'', Found (JStr ''10'')],
          [Text ''Videos posted'', Number 0],
          [Text ''Likes given'', Number 0],
          [Text ''Comments posted'', Number 0],
          [Text ''Messages sent'', Number 0],
          [Text ''Messages received'', Number 0],
          [Text ''Videos watched'', Number 0]]))" by code_simp
  show "extract_video_posts strptime_iso minimal_export = Inr None" by code_simp
  show "extract_comments_and_likes strptime_iso minimal_export = Inr None" by code_simp
  show "extract_videos_viewed strptime_iso minimal_export = Inl AttributeError" by code_simp
  show "extract_tiktok_data strptime_iso minimal_file = Inl AttributeError" by code_simp
  show "process (example_processor minimal_file) [] [PayloadString ''export.json'']
     = \<lparr>commands =
          [CommandUIRender ''TikTok'' (PromptFileInput ''application/zip, text/plain, application/json'') 0],
        meta_data = [(''debug'', ''TikTok: extracting file'')],
        status = Raised AttributeError\<rparr>" by code_simp
  show "get_json_data_from_file no_messages_file = Inr [no_messages_export]" by code_simp
  show "map (\<lambda>ex. map_option table_id (produced no_messages_export ex))
       [extract_summary_data strptime_iso, extract_video_posts strptime_iso,
        extract_comments_and_likes strptime_iso, extract_videos_viewed strptime_iso,
        extract_session_info strptime_iso]
     = [Some ''tiktok_summary'', Some ''tiktok_posts'', Some ''tiktok_comments_and_likes'',
        Some ''tiktok_videos_viewed'', Some ''tiktok_session_info'']" by code_simp
  show "extract_direct_messages strptime_iso no_messages_export = Inl AttributeError" by code_simp
  show "extract_tiktok_data strptime_iso no_messages_file = Inl AttributeError" by code_simp
qed

section \<open>Properties of the reader and the flow\<close>

text \<open>
  Claim C2, the code at the failing input. A file holding the JSON document \<^verbatim>\<open>{}\<close>
  parses directly and has no user name: \<open>load_tiktok_data\<close> raises \<open>IOError\<close>, not
  \<open>InvalidFileError\<close>, so \<open>process\<close> takes its \<open>IOError\<close> branch: one retry confirmation,
  and the flow ends although the user confirmed the retry.
\<close>

theorem invalid_file_raises_io_error:
  "load_tiktok_data (direct invalid_file) = Inl IOError
   \<and> get_json_data_from_file invalid_file = Inl IOError
   \<and> process (example_processor invalid_file) [] [PayloadString ''export.json'', PayloadTrue]
     = \<lparr>commands =
          [CommandUIRender ''TikTok'' (PromptFileInput ''application/zip, text/plain, application/json'') 0,
           CommandUIRender ''TikTok'' PromptConfirm 0],
        meta_data =
          [(''debug'', ''TikTok: extracting file''),
           (''debug'', ''TikTok: prompt confirmation to retry file selection'')],
        status = Returned\<rparr>"
  by code_simp

text \<open>
  Claim C3, as the code has it. Whenever the extractor raises \<open>IOError\<close> on the chosen
  file, the flow logs the extraction and the retry prompt, yields the file prompt and
  exactly one retry confirmation, and yields nothing after it: it waits for the answer
  and returns whatever the answer and whatever responses follow.
\<close>

theorem io_failure_ends_flow:
  "extractor p v = Inl IOError \<Longrightarrow>
     process p meta (PayloadString v # rs) =
       \<lparr>commands = [file_page p, retry_page p],
        meta_data = log p (log p meta ''extracting file'') ''prompt confirmation to retry file selection'',
        status = (if rs = [] then Suspended else Returned)\<rparr>"
  by (cases rs) (simp_all add: emit_def stop_def Let_def)

theorem io_failure_ends_flow_witness:
  "extractor (example_processor unreadable_file) ''export.json'' = Inl IOError
   \<and> process (example_processor unreadable_file) [] [PayloadString ''export.json'', PayloadTrue, PayloadString ''other.json'']
     = \<lparr>commands = [file_page (example_processor unreadable_file), retry_page (example_processor unreadable_file)],
        meta_data = log (example_processor unreadable_file) (log (example_processor unreadable_file) [] ''extracting file'')
                      ''prompt confirmation to retry file selection'',
        status = Returned\<rparr>"
proof -
  have h: "extractor (example_processor unreadable_file) ''export.json'' = Inl IOError" by code_simp
  show ?thesis
    using h io_failure_ends_flow[OF h, of "[]" "[PayloadTrue, PayloadString ''other.json'']"] by simp
qed

text \<open>
  Claim C3 as stated fails: a file that does not decode as JSON and is an archive whose
  only \<^verbatim>\<open>.json\<close> entry does not decode either raises nothing; the reader yields no
  document, and after the retry confirmation is answered with \<^verbatim>\<open>PayloadTrue\<close> the flow is
  back at the file prompt.
\<close>

theorem undecodable_file_loops_back:
  "direct undecodable_file = Inl JSONDecodeError
   \<and> archive undecodable_file = Inr [(''user_data.json'', Inl JSONDecodeError)]
   \<and> extract_tiktok_data strptime_iso undecodable_file = Inr None
   \<and> process (example_processor undecodable_file) [] [PayloadString ''export.zip'', PayloadTrue]
     = \<lparr>commands =
          [CommandUIRender ''TikTok'' (PromptFileInput ''application/zip, text/plain, application/json'') 0,
           CommandUIRender ''TikTok'' PromptConfirm 0,
           CommandUIRender ''TikTok'' (PromptFileInput ''application/zip, text/plain, application/json'') 0],
        meta_data = [(''debug'', ''TikTok: extracting file'')],
        status = Suspended\<rparr>"
  by code_simp

section \<open>Extractors on absent sections and fields\<close>

text \<open>
  Claim C6, the code at the failing input. On a validated document with no Direct
  Messages section the extractor raises \<open>AttributeError\<close> (\<open>flatten_chat_history\<close> is
  handed \<^verbatim>\<open>None\<close>) where Video Posts, on its absent section, answers \<^verbatim>\<open>None\<close>; on a
  chat history with no thread it gives its table with no row.
\<close>

theorem missing_chat_history_raises:
  "get_user_name minimal_export = Inr (JStr ''alice'')
   \<and> get_in minimal_export [''Direct Messages'', ''Chat History'', ''ChatHistory''] = Inr JNull
   \<and> extract_direct_messages sp minimal_export = Inl AttributeError
   \<and> extract_video_posts sp minimal_export = Inr None
   \<and> extract_direct_messages sp empty_chat_export
       = Inr (Some (ExtractionResult ''tiktok_direct_messages'' ''Direct Message Activity'' []))"
  by (simp add: extract_direct_messages_def extract_video_posts_def minimal_export_def
      empty_chat_export_def example_profile_def get_user_name_def anon_ids_def)

text \<open>
  Claim C9, the code at the failing inputs. Video Posts converts \<^verbatim>\<open>video["Likes"]\<close> with
  \<^verbatim>\<open>int\<close> and nothing else: the string \<^verbatim>\<open>"None"\<close> raises \<open>ValueError\<close> and a missing field
  raises \<open>KeyError\<close>, while \<open>cast_number\<close>, which the Summary uses for the likes
  received, turns both into 0.
\<close>

theorem video_posts_likes_not_cast:
  "extract_video_posts strptime_iso none_likes_export = Inl ValueError
   \<and> extract_video_posts strptime_iso missing_likes_export = Inl KeyError
   \<and> cast_number (JObj [(''Likes'', JStr ''None'')]) [''Likes''] = Inr (JNum 0)
   \<and> cast_number (JObj []) [''Likes''] = Inr (JNum 0)
   \<and> extract_video_posts strptime_iso example_export = Inr (Some example_posts_table)"
  by code_simp

end
